theory Spec2Isabelle
  imports Complex_Main "HOL-Library.AList" "HOL-Library.Multiset"
begin

section \<open>Python library operations used by the detector\<close>

text \<open>
  Strings are \<open>string\<close> (lists of characters); a character of the model is a Python
  character with a code point below 256. Python's \<open>int\<close> is \<open>int\<close>.
  Python's \<open>float\<close> results (scores, confidences, durations) are modelled by the exact
  rational value of the expression (\<open>rat\<close>); IEEE rounding is not part of the model.
  A \<open>dict\<close> is an association list in insertion order: \<open>map_of\<close> is the lookup,
  \<open>AList.update\<close> the assignment \<open>d[k] = v\<close> (an existing key keeps its position, a new
  key goes to the end), \<open>map snd\<close> is \<open>d.values()\<close>.
\<close>

text \<open>\<open>s.startswith(p)\<close>.\<close>

fun startswith :: "string \<Rightarrow> string \<Rightarrow> bool" where
  "startswith s [] = True"
| "startswith [] (c # p) = False"
| "startswith (x # s) (c # p) = (x = c \<and> startswith s p)"

text \<open>\<open>sub in s\<close> for strings: \<open>sub\<close> occurs as a contiguous substring of \<open>s\<close>.\<close>

fun str_contains :: "string \<Rightarrow> string \<Rightarrow> bool" where
  "str_contains sub [] = (sub = [])"
| "str_contains sub (x # xs) = (startswith (x # xs) sub \<or> str_contains sub xs)"

text \<open>\<open>s.count(c)\<close> for a one-character argument, the only use in the source.\<close>

definition str_count :: "string \<Rightarrow> char \<Rightarrow> int" where
  "str_count s c = int (length (filter (\<lambda>x. x = c) s))"

text \<open>
  \<open>s.split(sep)\<close> for a non-empty separator: the pieces between the non-overlapping
  occurrences of \<open>sep\<close>, scanned from the left. The result is never the empty list.
  (Python raises on an empty separator; the source only passes \<open>"::"\<close> and a newline.
  For an empty separator the model returns the string unsplit.)
\<close>

fun split_acc :: "string \<Rightarrow> string \<Rightarrow> string \<Rightarrow> string list" where
  "split_acc sep cur [] = [cur]"
| "split_acc sep cur (c # cs) =
     (if sep \<noteq> [] \<and> startswith (c # cs) sep
      then cur # split_acc sep [] (drop (length sep - 1) cs)
      else split_acc sep (cur @ [c]) cs)"

definition str_split :: "string \<Rightarrow> string \<Rightarrow> string list" where
  "str_split s sep = split_acc sep [] s"

section \<open>detector.py: the outcome aggregator\<close>

text \<open>\<open>TestResult\<close>: one execution result. The field names carry the prefix \<open>tr_\<close>.\<close>

record TestResult =
  tr_test_id :: string
  tr_outcome :: string
  tr_duration :: rat
  tr_error_message :: string

text \<open>\<open>FlakyTest\<close>: the aggregate of one test, with the dataclass defaults.\<close>

record FlakyTest =
  test_id :: string
  test_file :: string
  test_function :: string
  pass_count :: int
  fail_count :: int
  error_count :: int
  skip_count :: int
  outcomes :: "string list"
  error_messages :: "string list"

definition new_FlakyTest :: "string \<Rightarrow> string \<Rightarrow> string \<Rightarrow> FlakyTest" where
  "new_FlakyTest tid tfile tfun =
     \<lparr>test_id = tid, test_file = tfile, test_function = tfun,
      pass_count = 0, fail_count = 0, error_count = 0, skip_count = 0,
      outcomes = [], error_messages = []\<rparr>"

text \<open>Property \<open>FlakyTest.flakiness_score\<close>.\<close>

definition flakiness_score :: "FlakyTest \<Rightarrow> rat" where
  "flakiness_score t =
     (let total = int (length (outcomes t)) in
      if total = 0 then 0
      else
        let pass_ratio = of_int (pass_count t) / of_int total;
            fail_ratio = of_int (fail_count t) / of_int total
        in min pass_ratio fail_ratio * 2)"

text \<open>Property \<open>FlakyTest.is_flaky\<close>.\<close>

definition is_flaky :: "FlakyTest \<Rightarrow> bool" where
  "is_flaky t =
     (let unique_outcomes = set (outcomes t);
          has_pass = (''passed'' \<in> unique_outcomes);
          has_fail = (''failed'' \<in> unique_outcomes \<or> ''error'' \<in> unique_outcomes)
      in has_pass \<and> has_fail)"

text \<open>
  Property \<open>FlakyTest.failure_pattern\<close>. \<open>outcomes_str\<close> is the joined string of one
  character per outcome.
\<close>

definition outcomes_str :: "FlakyTest \<Rightarrow> string" where
  "outcomes_str t = map (\<lambda>o'. if o' = ''passed'' then CHR ''P'' else CHR ''F'') (outcomes t)"

definition failure_pattern :: "FlakyTest \<Rightarrow> string" where
  "failure_pattern t =
     (if \<not> is_flaky t then ''stable''
      else
        let s = outcomes_str t in
        if startswith s ''F'' \<and> str_contains ''P'' s then ''initially_failing''
        else if startswith s ''P'' \<and> str_contains ''F'' s then ''initially_passing''
        else if str_count s CHR ''F'' < 3 then ''rarely_failing''
        else if str_count s CHR ''P'' < 3 then ''rarely_passing''
        else ''intermittent'')"

text \<open>
  The body of the loop of \<open>FlakyDetector._process_results\<close> after the aggregate has
  been looked up (the part under the comment "Update test data"): the outcome is appended
  and the counter of the outcome is incremented. The \<open>if\<close>/\<open>elif\<close> chain of the source
  has no \<open>else\<close>: any other outcome string is appended and counted nowhere.
\<close>

definition update_test_data :: "TestResult \<Rightarrow> FlakyTest \<Rightarrow> FlakyTest" where
  "update_test_data result flaky_test =
     (let t1 = flaky_test\<lparr>outcomes := outcomes flaky_test @ [tr_outcome result]\<rparr>
      in if tr_outcome result = ''passed''
           then t1\<lparr>pass_count := pass_count t1 + 1\<rparr>
         else if tr_outcome result = ''failed''
           then t1\<lparr>fail_count := fail_count t1 + 1,
                   error_messages := error_messages t1 @ [tr_error_message result]\<rparr>
         else if tr_outcome result = ''error''
           then t1\<lparr>error_count := error_count t1 + 1,
                   error_messages := error_messages t1 @ [tr_error_message result]\<rparr>
         else if tr_outcome result = ''skipped''
           then t1\<lparr>skip_count := skip_count t1 + 1\<rparr>
         else t1)"

text \<open>
  One iteration of the loop of \<open>FlakyDetector._process_results\<close>: the test id is split
  at \<open>"::"\<close>, the aggregate is created on first sight of the test id, then updated in
  place. (After the initialisation the lookup always succeeds; the \<open>None\<close> branch is the
  \<open>KeyError\<close> that cannot happen.)
\<close>

definition record_result :: "TestResult \<Rightarrow> (string \<times> FlakyTest) list \<Rightarrow> (string \<times> FlakyTest) list" where
  "record_result result results =
     (let tid = tr_test_id result;
          parts = str_split tid ''::'';
          tfile = (if parts \<noteq> [] then hd parts else ''unknown'');
          tfun = (if parts \<noteq> [] then last parts else ''unknown'');
          results1 = (if map_of results tid = None
                      then AList.update tid (new_FlakyTest tid tfile tfun) results
                      else results)
      in case map_of results1 tid of
           None \<Rightarrow> results1
         | Some flaky_test \<Rightarrow> AList.update tid (update_test_data result flaky_test) results1)"

text \<open>\<open>FlakyDetector._process_results\<close>: the loop over the results of one run.\<close>

definition process_results :: "TestResult list \<Rightarrow> (string \<times> FlakyTest) list \<Rightarrow> (string \<times> FlakyTest) list" where
  "process_results rs results = fold record_result rs results"

text \<open>
  \<open>FlakyDetector.run_detection\<close>: the runs are processed one after the other, starting
  from the empty dictionary. Running pytest and decoding its report is outside the model:
  the argument holds, for each run, the list \<open>_execute_single_run\<close> returned.
\<close>

definition run_detection :: "TestResult list list \<Rightarrow> (string \<times> FlakyTest) list" where
  "run_detection runs = fold process_results runs []"

text \<open>\<open>FlakyDetector.get_flaky_tests\<close> and \<open>get_stable_tests\<close>. Python's \<open>sorted\<close> is
  stable, also with \<open>reverse=True\<close>: it is \<open>sort_key\<close> on the negated key.\<close>

definition get_flaky_tests_local :: "(string \<times> FlakyTest) list \<Rightarrow> FlakyTest list" where
  "get_flaky_tests_local results =
     sort_key (\<lambda>t. - flakiness_score t) (filter is_flaky (map snd results))"

definition get_stable_tests :: "(string \<times> FlakyTest) list \<Rightarrow> FlakyTest list" where
  "get_stable_tests results = filter (\<lambda>t. \<not> is_flaky t) (map snd results)"

section \<open>ci_analyzer.py: aggregates from CI history\<close>

text \<open>
  \<open>CITestRun\<close>: one test execution in CI. \<open>run_id\<close> holds the integer whose decimal
  rendering \<open>str(run_id)\<close> the source stores; \<open>timestamp\<close> is the parsed \<open>datetime\<close>
  as a number.
\<close>

record CITestRun =
  run_test_name :: string
  run_status :: string
  run_id :: int
  run_number :: int
  commit_sha :: string
  branch :: string
  timestamp :: int
  duration :: rat

text \<open>\<open>CIFlakyTest\<close>: the aggregate of one test. The field names carry the prefix \<open>ci_\<close>.\<close>

record CIFlakyTest =
  ci_test_name :: string
  ci_total_runs :: int
  ci_pass_count :: int
  ci_fail_count :: int
  ci_skip_count :: int
  ci_runs :: "CITestRun list"
  ci_branches :: "string set"

definition new_CIFlakyTest :: "string \<Rightarrow> CIFlakyTest" where
  "new_CIFlakyTest name =
     \<lparr>ci_test_name = name, ci_total_runs = 0, ci_pass_count = 0, ci_fail_count = 0,
      ci_skip_count = 0, ci_runs = [], ci_branches = {}\<rparr>"

text \<open>Property \<open>CIFlakyTest.flakiness_score\<close>.\<close>

definition ci_flakiness_score :: "CIFlakyTest \<Rightarrow> rat" where
  "ci_flakiness_score t =
     (if ci_total_runs t = 0 then 0
      else
        let pass_ratio = of_int (ci_pass_count t) / of_int (ci_total_runs t);
            fail_ratio = of_int (ci_fail_count t) / of_int (ci_total_runs t)
        in min pass_ratio fail_ratio * 2)"

text \<open>Property \<open>CIFlakyTest.is_flaky\<close>.\<close>

definition ci_is_flaky :: "CIFlakyTest \<Rightarrow> bool" where
  "ci_is_flaky t = (ci_pass_count t > 0 \<and> ci_fail_count t > 0)"

text \<open>Property \<open>CIFlakyTest.failure_rate\<close>.\<close>

definition failure_rate :: "CIFlakyTest \<Rightarrow> rat" where
  "failure_rate t =
     (if ci_total_runs t = 0 then 0 else of_int (ci_fail_count t) / of_int (ci_total_runs t))"

text \<open>
  One entry of the list \<open>parse_pytest_output\<close> returns, and what \<open>analyze\<close> reads of one
  workflow run (GitHub) or pipeline (GitLab): the fields that go into \<open>CITestRun\<close>.
\<close>

record TestData =
  td_test_name :: string
  td_test_id :: string
  td_status :: string

record CIExecution =
  ex_run_id :: int
  ex_run_number :: int
  ex_commit_sha :: string
  ex_branch :: string
  ex_timestamp :: int

text \<open>
  The body of the inner loop of \<open>analyze\<close> (the same text in \<open>GitHubActionsAnalyzer\<close> and
  \<open>GitLabCIAnalyzer\<close>): create the aggregate on first sight of the test name, count the
  run, record its provenance, and increment the counter of the status. Here
  \<open>'failed'\<close> and \<open>'error'\<close> both increment \<open>fail_count\<close>.
\<close>

definition ci_update :: "CIExecution \<Rightarrow> string \<Rightarrow> string \<Rightarrow> CIFlakyTest \<Rightarrow> CIFlakyTest" where
  "ci_update ex name status test_result =
     (let t1 = test_result\<lparr>ci_total_runs := ci_total_runs test_result + 1\<rparr>;
          t2 = t1\<lparr>ci_branches := insert (ex_branch ex) (ci_branches t1)\<rparr>;
          ci_run = \<lparr>run_test_name = name, run_status = status, run_id = ex_run_id ex,
                    run_number = ex_run_number ex, commit_sha = ex_commit_sha ex,
                    branch = ex_branch ex, timestamp = ex_timestamp ex, duration = 0\<rparr>;
          t3 = t2\<lparr>ci_runs := ci_runs t2 @ [ci_run]\<rparr>
      in if status = ''passed''
           then t3\<lparr>ci_pass_count := ci_pass_count t3 + 1\<rparr>
         else if status \<in> set [''failed'', ''error'']
           then t3\<lparr>ci_fail_count := ci_fail_count t3 + 1\<rparr>
         else if status = ''skipped''
           then t3\<lparr>ci_skip_count := ci_skip_count t3 + 1\<rparr>
         else t3)"

definition ci_record :: "CIExecution \<Rightarrow> TestData \<Rightarrow> (string \<times> CIFlakyTest) list \<Rightarrow> (string \<times> CIFlakyTest) list" where
  "ci_record ex test_data test_results =
     (let name = td_test_name test_data;
          status = td_status test_data;
          results1 = (if map_of test_results name = None
                      then AList.update name (new_CIFlakyTest name) test_results
                      else test_results)
      in case map_of results1 name of
           None \<Rightarrow> results1
         | Some test_result \<Rightarrow> AList.update name (ci_update ex name status test_result) results1)"

text \<open>
  \<open>analyze\<close>: at most the first 20 executions are read. Fetching and parsing the log is
  outside the model: each execution comes with \<open>None\<close> when the source skips it (no logs,
  or no test job on GitLab) and with the parsed list of tests otherwise.
\<close>

definition analyze_execution :: "CIExecution \<times> TestData list option \<Rightarrow> (string \<times> CIFlakyTest) list \<Rightarrow> (string \<times> CIFlakyTest) list" where
  "analyze_execution e test_results =
     (case snd e of
        None \<Rightarrow> test_results
      | Some tests \<Rightarrow> fold (ci_record (fst e)) tests test_results)"

definition ci_analyze :: "(CIExecution \<times> TestData list option) list \<Rightarrow> (string \<times> CIFlakyTest) list" where
  "ci_analyze executions = fold analyze_execution (take 20 executions) []"

text \<open>
  The module-level \<open>get_flaky_tests(test_results, min_runs)\<close>: the loop over
  \<open>test_results.items()\<close> keeps the aggregates that pass the test, in dictionary order;
  \<open>list.sort(key, reverse=True)\<close> is stable.
\<close>

definition get_flaky_tests :: "(string \<times> CIFlakyTest) list \<Rightarrow> int \<Rightarrow> CIFlakyTest list" where
  "get_flaky_tests test_results min_runs =
     (let flaky_tests = fold (\<lambda>(test_name, test_data) acc.
                                if ci_total_runs test_data \<ge> min_runs \<and> ci_is_flaky test_data
                                then acc @ [test_data] else acc)
                             test_results []
      in sort_key (\<lambda>t. - ci_flakiness_score t) flaky_tests)"

section \<open>analyzer.py: the root-cause classifier\<close>

datatype FlakinessType =
    TIME_DEPENDENT
  | RANDOM_DEPENDENT
  | ORDER_DEPENDENT
  | CONCURRENCY
  | EXTERNAL_DEPENDENCY
  | FLOATING_POINT
  | UNORDERED_COLLECTION
  | GLOBAL_STATE
  | UNKNOWN

record RootCause =
  type :: FlakinessType
  description :: string
  line_numbers :: "int list"
  code_snippets :: "string list"
  confidence :: rat

text \<open>The pattern tables, as the regular-expression texts of the source; \<open>bsl\<close> is the
  one-character string holding a backslash.\<close>

abbreviation bsl :: string where
  "bsl \<equiv> [CHR 0x5C]"

definition TIME_PATTERNS :: "string list" where
  \<open>TIME_PATTERNS =
    [bsl @ ''bdatetime'' @ bsl @ ''.now'' @ bsl @ ''('' @ bsl @ '')'',
     bsl @ ''btime'' @ bsl @ ''.time'' @ bsl @ ''('' @ bsl @ '')'',
     bsl @ ''btime'' @ bsl @ ''.sleep'' @ bsl @ ''('',
     bsl @ ''btimestamp'' @ bsl @ ''b'',
     bsl @ ''btoday'' @ bsl @ ''('' @ bsl @ '')'',
     bsl @ ''butcnow'' @ bsl @ ''('' @ bsl @ '')'']\<close>

definition RANDOM_PATTERNS :: "string list" where
  \<open>RANDOM_PATTERNS =
    [bsl @ ''brandom'' @ bsl @ ''.'',
     bsl @ ''buuid'' @ bsl @ ''.uuid4'' @ bsl @ ''('' @ bsl @ '')'',
     bsl @ ''bgenerate_uuid'' @ bsl @ ''('',
     bsl @ ''bgenerate_user_id'' @ bsl @ ''('',
     bsl @ ''bshuffle'' @ bsl @ ''('',
     bsl @ ''bshuffle_list'' @ bsl @ ''('',
     bsl @ ''bchoice'' @ bsl @ ''('',
     bsl @ ''brandint'' @ bsl @ ''('',
     bsl @ ''brandrange'' @ bsl @ ''('',
     bsl @ ''buuid4'' @ bsl @ ''('']\<close>

definition CONCURRENCY_PATTERNS :: "string list" where
  \<open>CONCURRENCY_PATTERNS =
    [bsl @ ''bthreading'' @ bsl @ ''.'',
     bsl @ ''bThread'' @ bsl @ ''('',
     bsl @ ''basyncio'' @ bsl @ ''.'',
     bsl @ ''basync def'' @ bsl @ ''b'',
     bsl @ ''bawait'' @ bsl @ ''b'',
     bsl @ ''bmultiprocessing'' @ bsl @ ''.'',
     bsl @ ''bPool'' @ bsl @ ''('']\<close>

definition ORDER_PATTERNS :: "string list" where
  \<open>ORDER_PATTERNS =
    [bsl @ ''bset'' @ bsl @ ''('',
     bsl @ ''bdict'' @ bsl @ ''.keys'' @ bsl @ ''('' @ bsl @ '')'',
     bsl @ ''bdict'' @ bsl @ ''.values'' @ bsl @ ''('' @ bsl @ '')'',
     bsl @ ''bdict'' @ bsl @ ''.items'' @ bsl @ ''('' @ bsl @ '')'',
     bsl @ ''.json'' @ bsl @ ''('' @ bsl @ '')'']\<close>

definition EXTERNAL_PATTERNS :: "string list" where
  \<open>EXTERNAL_PATTERNS =
    [bsl @ ''brequests'' @ bsl @ ''.'',
     bsl @ ''bhttp'',
     bsl @ ''burl'',
     bsl @ ''bapi'',
     bsl @ ''bsocket'' @ bsl @ ''.'',
     bsl @ ''bopen'' @ bsl @ ''('',
     bsl @ ''.read'' @ bsl @ ''('',
     bsl @ ''.write'' @ bsl @ ''('']\<close>

definition FLOAT_PATTERNS :: "string list" where
  \<open>FLOAT_PATTERNS =
    [''assert.*==.*'' @ bsl @ ''d+'' @ bsl @ ''.'' @ bsl @ ''d+'',
     ''assertEqual.*'' @ bsl @ ''d+'' @ bsl @ ''.'' @ bsl @ ''d+'']\<close>

definition GLOBAL_STATE_PATTERNS :: "string list" where
  \<open>GLOBAL_STATE_PATTERNS =
    [bsl @ ''bglobal'' @ bsl @ ''b'',
     bsl @ ''b__class__'' @ bsl @ ''.'',
     bsl @ ''bsys'' @ bsl @ ''.'',
     bsl @ ''bos'' @ bsl @ ''.environ'']\<close>

text \<open>
  The analyzer object. \<open>tree\<close> is \<open>None\<close> when the file is missing or has a syntax
  error, and otherwise holds what \<open>analyze\<close> reads of the syntax tree: its
  \<open>ast.FunctionDef\<close> nodes in the order of \<open>ast.walk\<close>, each with its name, its first
  line and the result of \<open>ast.get_source_segment\<close> for it (\<open>None\<close> when the node has no
  location).
\<close>

record FunctionDef =
  fd_name :: string
  fd_lineno :: int
  fd_segment :: "string option"

record RootCauseAnalyzer =
  source_code :: string
  tree :: "FunctionDef list option"

text \<open>
  What the constructor \<open>RootCauseAnalyzer.__init__\<close> meets. The file: it does not exist
  (\<open>Missing\<close>), it exists and \<open>read_text()\<close> raises (\<open>Unreadable\<close>: no permission, a
  directory, bytes that do not decode), or \<open>read_text()\<close> returns its text. The parser:
  \<open>ast.parse\<close> returns a tree, raises \<open>SyntaxError\<close>, or raises something else
  (\<open>ValueError\<close>, \<open>RecursionError\<close>, \<open>MemoryError\<close>). The parser is the parameter
  \<open>ast_parse\<close> of the model.
\<close>

datatype py_error = OSError | UnicodeDecodeError | ValueError | RecursionError | MemoryError

datatype test_file = Missing | Unreadable py_error | Contents string

datatype parse_result = Parsed "FunctionDef list" | SyntaxError | ParseRaises py_error

text \<open>
  \<open>RootCauseAnalyzer.__init__\<close>. \<open>read_text()\<close> is called outside the \<open>try\<close>, and the
  \<open>try\<close> around \<open>ast.parse\<close> catches \<open>SyntaxError\<close> only: every other error leaves the
  constructor (\<open>Inl\<close>). A missing file and a syntax error both leave \<open>tree\<close> at \<open>None\<close>.
\<close>

definition new_RootCauseAnalyzer :: "(string \<Rightarrow> parse_result) \<Rightarrow> test_file \<Rightarrow> py_error + RootCauseAnalyzer" where
  "new_RootCauseAnalyzer ast_parse file =
     (case file of
        Missing \<Rightarrow> Inr \<lparr>source_code = [], tree = None\<rparr>
      | Unreadable e \<Rightarrow> Inl e
      | Contents content \<Rightarrow>
          (case ast_parse content of
             Parsed nodes \<Rightarrow> Inr \<lparr>source_code = content, tree = Some nodes\<rparr>
           | SyntaxError \<Rightarrow> Inr \<lparr>source_code = content, tree = None\<rparr>
           | ParseRaises e \<Rightarrow> Inl e))"

text \<open>\<open>_find_function\<close>: the first function definition with the name, or \<open>None\<close>.\<close>

definition find_function :: "FunctionDef list \<Rightarrow> string \<Rightarrow> FunctionDef option" where
  "find_function nodes func_name = find (\<lambda>node. fd_name node = func_name) nodes"

text \<open>\<open>line.strip()\<close>: leading and trailing whitespace removed. The whitespace
  characters are the code points below 256 for which \<open>str.isspace\<close> holds: the ASCII
  ones, U+0085 and U+00A0.\<close>

definition isspace :: "char \<Rightarrow> bool" where
  "isspace c = (of_char c \<in> set [9, 10, 11, 12, 13, 28, 29, 30, 31, 32, 133, 160 :: nat])"

definition strip :: "string \<Rightarrow> string" where
  "strip s = rev (dropWhile isspace (rev (dropWhile isspace s)))"

text \<open>
  \<open>_check_pattern\<close>: for every line, in order, one \<open>(line number, snippet)\<close> pair if any
  pattern of the table is found in it (the \<open>break\<close> after the first hit). \<open>re.search\<close> is
  the parameter \<open>re_search pattern line\<close>.
\<close>

definition check_pattern :: "(string \<Rightarrow> string \<Rightarrow> bool) \<Rightarrow> string list \<Rightarrow> string list \<Rightarrow> int \<Rightarrow> (int \<times> string) list" where
  "check_pattern re_search patterns lines start_line =
     concat (map (\<lambda>(i, line).
                    if list_ex (\<lambda>pattern. re_search pattern line) patterns
                    then [(start_line + int i, strip line)] else [])
                 (enumerate 0 lines))"

text \<open>The seven checks \<open>_check_time_dependency\<close> ... \<open>_check_global_state\<close> differ in the
  table, the type, the description and the confidence only.\<close>

definition check_category :: "(string \<Rightarrow> string \<Rightarrow> bool) \<Rightarrow> string list \<Rightarrow> FlakinessType \<Rightarrow> string \<Rightarrow> rat \<Rightarrow> string list \<Rightarrow> int \<Rightarrow> RootCause list" where
  "check_category re_search patterns ty descr conf lines start_line =
     (let matches = check_pattern re_search patterns lines start_line
      in if matches \<noteq> []
         then [\<lparr>type = ty, description = descr,
                line_numbers = map fst matches, code_snippets = map snd matches,
                confidence = conf\<rparr>]
         else [])"

definition check_time_dependency :: "(string \<Rightarrow> string \<Rightarrow> bool) \<Rightarrow> string list \<Rightarrow> int \<Rightarrow> RootCause list" where
  "check_time_dependency re_search =
     check_category re_search TIME_PATTERNS TIME_DEPENDENT
       ''Test uses current time/date which changes between runs'' (9 / 10)"

definition check_random_dependency :: "(string \<Rightarrow> string \<Rightarrow> bool) \<Rightarrow> string list \<Rightarrow> int \<Rightarrow> RootCause list" where
  "check_random_dependency re_search =
     check_category re_search RANDOM_PATTERNS RANDOM_DEPENDENT
       ''Test uses random values without setting seed'' (95 / 100)"

definition check_concurrency :: "(string \<Rightarrow> string \<Rightarrow> bool) \<Rightarrow> string list \<Rightarrow> int \<Rightarrow> RootCause list" where
  "check_concurrency re_search =
     check_category re_search CONCURRENCY_PATTERNS CONCURRENCY
       ''Test involves threading/async code with potential race conditions'' (8 / 10)"

definition check_order_dependency :: "(string \<Rightarrow> string \<Rightarrow> bool) \<Rightarrow> string list \<Rightarrow> int \<Rightarrow> RootCause list" where
  "check_order_dependency re_search =
     check_category re_search ORDER_PATTERNS UNORDERED_COLLECTION
       ''Test relies on ordering of sets/dicts which is not guaranteed'' (7 / 10)"

definition check_external_dependency :: "(string \<Rightarrow> string \<Rightarrow> bool) \<Rightarrow> string list \<Rightarrow> int \<Rightarrow> RootCause list" where
  "check_external_dependency re_search =
     check_category re_search EXTERNAL_PATTERNS EXTERNAL_DEPENDENCY
       ''Test depends on external resources (network, filesystem, etc.)'' (6 / 10)"

definition check_floating_point :: "(string \<Rightarrow> string \<Rightarrow> bool) \<Rightarrow> string list \<Rightarrow> int \<Rightarrow> RootCause list" where
  "check_floating_point re_search =
     check_category re_search FLOAT_PATTERNS FLOATING_POINT
       ''Test uses exact floating point comparison which may fail due to rounding'' (85 / 100)"

definition check_global_state :: "(string \<Rightarrow> string \<Rightarrow> bool) \<Rightarrow> string list \<Rightarrow> int \<Rightarrow> RootCause list" where
  "check_global_state re_search =
     check_category re_search GLOBAL_STATE_PATTERNS GLOBAL_STATE
       ''Test modifies global state which may affect other tests'' (75 / 100)"

text \<open>
  \<open>RootCauseAnalyzer.analyze\<close>. The three early returns of the source are the first
  three branches: no tree, no function of that name, no source segment (\<open>None\<close> or the
  empty string).
\<close>

definition analyze :: "(string \<Rightarrow> string \<Rightarrow> bool) \<Rightarrow> RootCauseAnalyzer \<Rightarrow> string \<Rightarrow> RootCause list" where
  "analyze re_search self test_function_name =
     (case tree self of
        None \<Rightarrow>
          [\<lparr>type = UNKNOWN, description = ''Could not parse test file'',
            line_numbers = [], code_snippets = [], confidence = 0\<rparr>]
      | Some nodes \<Rightarrow>
          (case find_function nodes test_function_name of
             None \<Rightarrow> []
           | Some test_func \<Rightarrow>
               (case fd_segment test_func of
                  None \<Rightarrow> []
                | Some func_source \<Rightarrow>
                    if func_source = [] then []
                    else
                      let func_lines = str_split func_source ''\<newline>'';
                          func_start_line = fd_lineno test_func;
                          causes =
                            check_time_dependency re_search func_lines func_start_line
                            @ check_random_dependency re_search func_lines func_start_line
                            @ check_concurrency re_search func_lines func_start_line
                            @ check_order_dependency re_search func_lines func_start_line
                            @ check_external_dependency re_search func_lines func_start_line
                            @ check_floating_point re_search func_lines func_start_line
                            @ check_global_state re_search func_lines func_start_line
                      in if causes \<noteq> [] then causes
                         else [\<lparr>type = UNKNOWN,
                                description = ''No obvious flakiness pattern detected'',
                                line_numbers = [], code_snippets = [],
                                confidence = 1 / 10\<rparr>])))"

text \<open>
  The classifier as its callers use it, \<open>RootCauseAnalyzer(test_file).analyze(name)\<close>: an
  error of the constructor is the result; otherwise the result is what \<open>analyze\<close> returns.
\<close>

definition classify :: "(string \<Rightarrow> string \<Rightarrow> bool) \<Rightarrow> (string \<Rightarrow> parse_result) \<Rightarrow> test_file \<Rightarrow> string \<Rightarrow> py_error + RootCause list" where
  "classify re_search ast_parse file test_function_name =
     (case new_RootCauseAnalyzer ast_parse file of
        Inl e \<Rightarrow> Inl e
      | Inr self \<Rightarrow> Inr (analyze re_search self test_function_name))"

section \<open>suggester.py: the repair suggestion mapper\<close>

record RepairSuggestion =
  title :: string
  fix_description :: string
  code_example :: string
  priority :: int

text \<open>\<open>_suggest_time_fixes\<close>: suggestions for time-dependent tests.\<close>

definition suggest_time_fixes :: "RepairSuggestion list" where
  \<open>suggest_time_fixes =
    [\<lparr>title = ''Mock datetime.now() with freezegun'',
      fix_description = ''Use freezegun to freeze time during test execution'',
      code_example =
        ''# Install: pip install freezegun\<newline>'' @
        ''from freezegun import freeze_time\<newline>'' @
        ''\<newline>'' @
        ''@freeze_time("2024-01-15 12:00:00")\<newline>'' @
        ''def test_something():\<newline>'' @
        ''    # Now datetime.now() always returns 2024-01-15 12:00:00\<newline>'' @
        ''    result = my_function()\<newline>'' @
        ''    assert result.date == datetime(2024, 1, 15)'',
      priority = 1\<rparr>,
     \<lparr>title = ''Inject time as parameter'',
      fix_description = ''Pass time as a parameter instead of calling datetime.now() inside code'',
      code_example =
        ''# Instead of:\<newline>'' @
        ''def process():\<newline>'' @
        ''    now = datetime.now()\<newline>'' @
        ''    return now.hour > 12\<newline>'' @
        ''\<newline>'' @
        ''# Do this:\<newline>'' @
        ''def process(current_time=None):\<newline>'' @
        ''    if current_time is None:\<newline>'' @
        ''        current_time = datetime.now()\<newline>'' @
        ''    return current_time.hour > 12\<newline>'' @
        ''\<newline>'' @
        ''# Test:\<newline>'' @
        ''def test_process():\<newline>'' @
        ''    test_time = datetime(2024, 1, 15, 14, 0)\<newline>'' @
        ''    assert process(test_time) == True'',
      priority = 1\<rparr>]\<close>

text \<open>\<open>_suggest_random_fixes\<close>: suggestions for random-dependent tests.\<close>

definition suggest_random_fixes :: "RepairSuggestion list" where
  \<open>suggest_random_fixes =
    [\<lparr>title = ''Set random seed before test'',
      fix_description = ''Fix the random seed to make tests deterministic'',
      code_example =
        ''import random\<newline>'' @
        ''\<newline>'' @
        ''def test_something():\<newline>'' @
        ''    random.seed(42)  # Always same sequence\<newline>'' @
        ''    result = my_random_function()\<newline>'' @
        ''    assert result == expected_value'',
      priority = 1\<rparr>,
     \<lparr>title = ''Use pytest fixtures for random data'',
      fix_description = ''Generate random test data in fixtures with fixed seed'',
      code_example =
        ''import pytest\<newline>'' @
        ''import random\<newline>'' @
        ''\<newline>'' @
        ''@pytest.fixture\<newline>'' @
        ''def random_data():\<newline>'' @
        ''    random.seed(42)\<newline>'' @
        ''    return [random.randint(1, 100) for _ in range(10)]\<newline>'' @
        ''\<newline>'' @
        ''def test_something(random_data):\<newline>'' @
        ''    result = process(random_data)\<newline>'' @
        ''    assert result == expected'',
      priority = 1\<rparr>,
     \<lparr>title = ''Mock random module'',
      fix_description = ''Mock the random module to return predetermined values'',
      code_example =
        ''from unittest.mock import patch\<newline>'' @
        ''\<newline>'' @
        ''def test_something():\<newline>'' @
        ''    with patch('random.randint', return_value=42):\<newline>'' @
        ''        result = my_function()\<newline>'' @
        ''        assert result == expected'',
      priority = 2\<rparr>]\<close>

text \<open>\<open>_suggest_concurrency_fixes\<close>: suggestions for concurrency issues.\<close>

definition suggest_concurrency_fixes :: "RepairSuggestion list" where
  \<open>suggest_concurrency_fixes =
    [\<lparr>title = ''Add proper synchronization'',
      fix_description = ''Use locks, events, or other synchronization primitives'',
      code_example =
        ''import threading\<newline>'' @
        ''\<newline>'' @
        ''lock = threading.Lock()\<newline>'' @
        ''\<newline>'' @
        ''def test_concurrent():\<newline>'' @
        ''    results = []\<newline>'' @
        ''\<newline>'' @
        ''    def worker():\<newline>'' @
        ''        with lock:\<newline>'' @
        ''            results.append(do_work())\<newline>'' @
        ''\<newline>'' @
        ''    threads = [threading.Thread(target=worker) for _ in range(5)]\<newline>'' @
        ''    for t in threads:\<newline>'' @
        ''        t.start()\<newline>'' @
        ''    for t in threads:\<newline>'' @
        ''        t.join()\<newline>'' @
        ''\<newline>'' @
        ''    assert len(results) == 5'',
      priority = 1\<rparr>,
     \<lparr>title = ''Use pytest-asyncio for async tests'',
      fix_description = ''Properly handle async tests with pytest-asyncio'',
      code_example =
        ''import pytest\<newline>'' @
        ''\<newline>'' @
        ''@pytest.mark.asyncio\<newline>'' @
        ''async def test_async_function():\<newline>'' @
        ''    result = await my_async_function()\<newline>'' @
        ''    assert result == expected'',
      priority = 1\<rparr>,
     \<lparr>title = ''Add timeouts and retries'',
      fix_description = ''Add explicit timeouts for async operations'',
      code_example =
        ''import asyncio\<newline>'' @
        ''\<newline>'' @
        ''async def test_with_timeout():\<newline>'' @
        ''    try:\<newline>'' @
        ''        result = await asyncio.wait_for(\<newline>'' @
        ''            my_async_function(),\<newline>'' @
        ''            timeout=5.0\<newline>'' @
        ''        )\<newline>'' @
        ''        assert result == expected\<newline>'' @
        ''    except asyncio.TimeoutError:\<newline>'' @
        ''        pytest.fail("Operation timed out")'',
      priority = 2\<rparr>]\<close>

text \<open>\<open>_suggest_order_fixes\<close>: suggestions for order-dependent tests.\<close>

definition suggest_order_fixes :: "RepairSuggestion list" where
  \<open>suggest_order_fixes =
    [\<lparr>title = ''Sort collections before comparison'',
      fix_description = ''Convert to sorted lists for deterministic ordering'',
      code_example =
        ''# Instead of:\<newline>'' @
        ''assert result == {1, 2, 3}\<newline>'' @
        ''\<newline>'' @
        ''# Do this:\<newline>'' @
        ''assert sorted(result) == [1, 2, 3]\<newline>'' @
        ''\<newline>'' @
        ''# Or for dicts:\<newline>'' @
        ''assert sorted(result.items()) == sorted(expected.items())'',
      priority = 1\<rparr>,
     \<lparr>title = ''Use ordered collections'',
      fix_description = ''Replace set/dict with list/OrderedDict when order matters'',
      code_example =
        ''from collections import OrderedDict\<newline>'' @
        ''\<newline>'' @
        ''# Instead of:\<newline>'' @
        ''data = {'a': 1, 'b': 2}\<newline>'' @
        ''\<newline>'' @
        ''# Use:\<newline>'' @
        ''data = OrderedDict([('a', 1), ('b', 2)])\<newline>'' @
        ''\<newline>'' @
        ''# Or just use a list of tuples:\<newline>'' @
        ''data = [('a', 1), ('b', 2)]'',
      priority = 1\<rparr>]\<close>

text \<open>\<open>_suggest_external_fixes\<close>: suggestions for external dependency issues.\<close>

definition suggest_external_fixes :: "RepairSuggestion list" where
  \<open>suggest_external_fixes =
    [\<lparr>title = ''Mock external dependencies'',
      fix_description = ''Use mocks instead of real external calls'',
      code_example =
        ''from unittest.mock import patch, Mock\<newline>'' @
        ''\<newline>'' @
        ''def test_api_call():\<newline>'' @
        ''    mock_response = Mock()\<newline>'' @
        ''    mock_response.json.return_value = {'status': 'ok'}\<newline>'' @
        ''\<newline>'' @
        ''    with patch('requests.get', return_value=mock_response):\<newline>'' @
        ''        result = my_function_that_calls_api()\<newline>'' @
        ''        assert result['status'] == 'ok'' @
        [CHR 0x27],
      priority = 1\<rparr>,
     \<lparr>title = ''Use pytest fixtures for test files'',
      fix_description = ''Create temporary files in fixtures'',
      code_example =
        ''import pytest\<newline>'' @
        ''from pathlib import Path\<newline>'' @
        ''\<newline>'' @
        ''@pytest.fixture\<newline>'' @
        ''def test_file(tmp_path):\<newline>'' @
        ''    file = tmp_path / "test.txt"\<newline>'' @
        ''    file.write_text("test content")\<newline>'' @
        ''    return file\<newline>'' @
        ''\<newline>'' @
        ''def test_read_file(test_file):\<newline>'' @
        ''    content = read_file(test_file)\<newline>'' @
        ''    assert content == "test content" '',
      priority = 1\<rparr>,
     \<lparr>title = ''Use responses library for HTTP'',
      fix_description = ''Mock HTTP requests with the responses library'',
      code_example =
        ''import responses\<newline>'' @
        ''import requests\<newline>'' @
        ''\<newline>'' @
        ''@responses.activate\<newline>'' @
        ''def test_api():\<newline>'' @
        ''    responses.add(\<newline>'' @
        ''        responses.GET,\<newline>'' @
        ''        'https://api.example.com/data',\<newline>'' @
        ''        json={'status': 'ok'},\<newline>'' @
        ''        status=200\<newline>'' @
        ''    )\<newline>'' @
        ''\<newline>'' @
        ''    result = fetch_data()\<newline>'' @
        ''    assert result['status'] == 'ok'' @
        [CHR 0x27],
      priority = 2\<rparr>]\<close>

text \<open>\<open>_suggest_float_fixes\<close>: suggestions for floating point comparison issues.\<close>

definition suggest_float_fixes :: "RepairSuggestion list" where
  \<open>suggest_float_fixes =
    [\<lparr>title = ''Use pytest.approx for float comparison'',
      fix_description = ''Compare floats with tolerance using pytest.approx'',
      code_example =
        ''import pytest\<newline>'' @
        ''\<newline>'' @
        ''# Instead of:\<newline>'' @
        ''assert result == 0.1 + 0.2  # May fail!\<newline>'' @
        ''\<newline>'' @
        ''# Do this:\<newline>'' @
        ''assert result == pytest.approx(0.3)\<newline>'' @
        ''\<newline>'' @
        ''# Or with custom tolerance:\<newline>'' @
        ''assert result == pytest.approx(0.3, abs=1e-6)'',
      priority = 1\<rparr>,
     \<lparr>title = ''Use math.isclose()'',
      fix_description = ''Use math.isclose() for relative/absolute tolerance'',
      code_example =
        ''import math\<newline>'' @
        ''\<newline>'' @
        ''# Instead of:\<newline>'' @
        ''assert a == b\<newline>'' @
        ''\<newline>'' @
        ''# Do this:\<newline>'' @
        ''assert math.isclose(a, b, rel_tol=1e-9, abs_tol=1e-9)'',
      priority = 1\<rparr>]\<close>

text \<open>\<open>_suggest_global_state_fixes\<close>: suggestions for global state issues.\<close>

definition suggest_global_state_fixes :: "RepairSuggestion list" where
  \<open>suggest_global_state_fixes =
    [\<lparr>title = ''Reset global state in fixtures'',
      fix_description = ''Use pytest fixtures to reset state before/after tests'',
      code_example =
        ''import pytest\<newline>'' @
        ''\<newline>'' @
        ''@pytest.fixture(autouse=True)\<newline>'' @
        ''def reset_global_state():\<newline>'' @
        ''    # Setup\<newline>'' @
        ''    original_value = MyClass.global_var\<newline>'' @
        ''    yield\<newline>'' @
        ''    # Teardown\<newline>'' @
        ''    MyClass.global_var = original_value\<newline>'' @
        ''\<newline>'' @
        ''def test_something():\<newline>'' @
        ''    MyClass.global_var = 'new_value'' @
        [CHR 0x27] @
        ''\<newline>'' @
        ''    # Test will not affect other tests'',
      priority = 1\<rparr>,
     \<lparr>title = ''Mock environment variables'',
      fix_description = ''Use monkeypatch to temporarily set environment variables'',
      code_example =
        ''def test_with_env_var(monkeypatch):\<newline>'' @
        ''    monkeypatch.setenv('MY_VAR', 'test_value')\<newline>'' @
        ''    result = my_function()\<newline>'' @
        ''    assert result == expected\<newline>'' @
        ''    # Environment is automatically restored'',
      priority = 1\<rparr>,
     \<lparr>title = ''Use dependency injection'',
      fix_description = ''Pass dependencies as parameters instead of using globals'',
      code_example =
        ''# Instead of:\<newline>'' @
        ''CONFIG = {'debug': True}\<newline>'' @
        ''\<newline>'' @
        ''def process():\<newline>'' @
        ''    if CONFIG['debug']:\<newline>'' @
        ''        print("Debug mode")\<newline>'' @
        ''\<newline>'' @
        ''# Do this:\<newline>'' @
        ''def process(config=None):\<newline>'' @
        ''    config = config or {'debug': False}\<newline>'' @
        ''    if config['debug']:\<newline>'' @
        ''        print("Debug mode")\<newline>'' @
        ''\<newline>'' @
        ''def test_process():\<newline>'' @
        ''    result = process(config={'debug': True})\<newline>'' @
        ''    assert result == expected'',
      priority = 2\<rparr>]\<close>

text \<open>The \<open>if\<close>/\<open>elif\<close> chain of \<open>suggest_repairs\<close> on the type of one cause: the list
  the loop appends. \<open>ORDER_DEPENDENT\<close> and \<open>UNKNOWN\<close> have no branch.\<close>

fun fixes_for :: "FlakinessType \<Rightarrow> RepairSuggestion list" where
  "fixes_for TIME_DEPENDENT = suggest_time_fixes"
| "fixes_for RANDOM_DEPENDENT = suggest_random_fixes"
| "fixes_for CONCURRENCY = suggest_concurrency_fixes"
| "fixes_for UNORDERED_COLLECTION = suggest_order_fixes"
| "fixes_for EXTERNAL_DEPENDENCY = suggest_external_fixes"
| "fixes_for FLOATING_POINT = suggest_float_fixes"
| "fixes_for GLOBAL_STATE = suggest_global_state_fixes"
| "fixes_for ORDER_DEPENDENT = []"
| "fixes_for UNKNOWN = []"

text \<open>The first loop of \<open>suggest_repairs\<close>: the suggestions of every cause, in order.\<close>

definition collect_suggestions :: "RootCause list \<Rightarrow> RepairSuggestion list" where
  "collect_suggestions causes =
     fold (\<lambda>cause suggestions. suggestions @ fixes_for (type cause)) causes []"

text \<open>The second loop ("Remove duplicates"): the state is the set \<open>seen\<close> of titles and
  the list \<open>unique_suggestions\<close>.\<close>

definition remove_duplicates :: "RepairSuggestion list \<Rightarrow> string set \<times> RepairSuggestion list" where
  "remove_duplicates suggestions =
     fold (\<lambda>suggestion (seen, unique_suggestions).
             if title suggestion \<notin> seen
             then (insert (title suggestion) seen, unique_suggestions @ [suggestion])
             else (seen, unique_suggestions))
          suggestions ({}, [])"

text \<open>\<open>RepairSuggester.suggest_repairs\<close>; \<open>sorted(..., key=...)\<close> is a stable sort.\<close>

definition suggest_repairs :: "RootCause list \<Rightarrow> RepairSuggestion list" where
  "suggest_repairs causes =
     (let suggestions = collect_suggestions causes;
          unique_suggestions = snd (remove_duplicates suggestions)
      in sort_key priority unique_suggestions)"

section \<open>Notions used to state the properties\<close>

subsection \<open>Recorded outcome sequences\<close>

text \<open>The four outcomes the data model names.\<close>

definition known_outcomes :: "string list" where
  "known_outcomes = [''passed'', ''failed'', ''error'', ''skipped'']"

text \<open>The outcomes recorded for one test id, in run order, over all runs.\<close>

definition recorded_outcomes :: "TestResult list list \<Rightarrow> string \<Rightarrow> string list" where
  "recorded_outcomes runs tid = map tr_outcome (filter (\<lambda>r. tr_test_id r = tid) (concat runs))"

text \<open>The sum of the four counters, and the invariant "the counters sum to the length of
  the outcome sequence".\<close>

definition counts_total :: "FlakyTest \<Rightarrow> int" where
  "counts_total t = pass_count t + fail_count t + error_count t + skip_count t"

definition counts_sum_to_length :: "FlakyTest \<Rightarrow> bool" where
  "counts_sum_to_length t = (counts_total t = int (length (outcomes t)))"

text \<open>Every counter is the number of occurrences of its outcome in the sequence.\<close>

definition tracked :: "FlakyTest \<Rightarrow> bool" where
  "tracked t =
     (pass_count t = int (count_list (outcomes t) ''passed'') \<and>
      fail_count t = int (count_list (outcomes t) ''failed'') \<and>
      error_count t = int (count_list (outcomes t) ''error'') \<and>
      skip_count t = int (count_list (outcomes t) ''skipped''))"

text \<open>A history of one test: one run per status, each run reporting that test only.\<close>

definition outcome_of :: "string \<Rightarrow> string \<Rightarrow> TestResult" where
  "outcome_of tid status =
     \<lparr>tr_test_id = tid, tr_outcome = status, tr_duration = 0, tr_error_message = []\<rparr>"

definition history :: "string \<Rightarrow> string list \<Rightarrow> TestResult list list" where
  "history tid statuses = map (\<lambda>status. [outcome_of tid status]) statuses"

subsection \<open>The same outcomes, recorded locally and from CI\<close>

text \<open>
  The local runs that report what the CI executions report: a test of a CI log becomes a
  local result with the test name as its id and the same status; an execution the
  importer skips is a run with no results.
\<close>

definition local_result :: "TestData \<Rightarrow> TestResult" where
  "local_result test_data = outcome_of (td_test_name test_data) (td_status test_data)"

definition local_runs :: "(CIExecution \<times> TestData list option) list \<Rightarrow> TestResult list list" where
  "local_runs executions =
     map (\<lambda>e. case snd e of None \<Rightarrow> [] | Some tests \<Rightarrow> map local_result tests) executions"

text \<open>The (execution, test) pairs the CI importer records, in order.\<close>

definition ci_events :: "(CIExecution \<times> TestData list option) list \<Rightarrow> (CIExecution \<times> TestData) list" where
  "ci_events executions =
     concat (map (\<lambda>e. case snd e of None \<Rightarrow> [] | Some tests \<Rightarrow> map (Pair (fst e)) tests) executions)"

text \<open>The statuses recorded for one test name among (execution, test) pairs, in order, and
  what the counters of a CI aggregate are on such a sequence: \<open>failed\<close> and \<open>error\<close> are
  both counted by \<open>fail_count\<close>.\<close>

definition ci_statuses :: "(CIExecution \<times> TestData) list \<Rightarrow> string \<Rightarrow> string list" where
  "ci_statuses events name =
     map (td_status \<circ> snd) (filter (\<lambda>p. td_test_name (snd p) = name) events)"

definition ci_tracked :: "string list \<Rightarrow> CIFlakyTest \<Rightarrow> bool" where
  "ci_tracked statuses t =
     (ci_total_runs t = int (length statuses) \<and>
      ci_pass_count t = int (count_list statuses ''passed'') \<and>
      ci_fail_count t = int (count_list statuses ''failed'') + int (count_list statuses ''error'') \<and>
      ci_skip_count t = int (count_list statuses ''skipped''))"

text \<open>One CI execution per status, each log reporting the one test.\<close>

definition ci_history :: "string \<Rightarrow> string list \<Rightarrow> (CIExecution \<times> TestData list option) list" where
  "ci_history name statuses =
     map (\<lambda>(i, status).
            (\<lparr>ex_run_id = int i, ex_run_number = int i, ex_commit_sha = ''c0ffee'',
              ex_branch = ''main'', ex_timestamp = int i\<rparr>,
             Some [\<lparr>td_test_name = name, td_test_id = name, td_status = status\<rparr>]))
         (enumerate 1 statuses)"

text \<open>A CI aggregate with given counters, for examples.\<close>

definition ci_aggregate :: "string \<Rightarrow> int \<Rightarrow> int \<Rightarrow> int \<Rightarrow> CIFlakyTest" where
  "ci_aggregate name passed failed skipped =
     \<lparr>ci_test_name = name, ci_total_runs = passed + failed + skipped,
      ci_pass_count = passed, ci_fail_count = failed, ci_skip_count = skipped,
      ci_runs = [], ci_branches = {''main''}\<rparr>"

subsection \<open>The failure-pattern rules as the specification words them\<close>

text \<open>
  One letter per outcome in run order, \<open>P\<close> for \<open>passed\<close> and \<open>F\<close> for anything else;
  then the five rules in order, the first that matches wins; a sequence without mixed
  outcomes is \<open>stable\<close>.
\<close>

datatype letter = P | F

definition letters :: "string list \<Rightarrow> letter list" where
  "letters outs = map (\<lambda>out. if out = ''passed'' then P else F) outs"

definition mixed :: "string list \<Rightarrow> bool" where
  "mixed outs = (''passed'' \<in> set outs \<and> (''failed'' \<in> set outs \<or> ''error'' \<in> set outs))"

definition pattern_rules :: "string list \<Rightarrow> string" where
  "pattern_rules outs =
     (if \<not> mixed outs then ''stable''
      else if take 1 (letters outs) = [F] \<and> P \<in> set (letters outs) then ''initially_failing''
      else if take 1 (letters outs) = [P] \<and> F \<in> set (letters outs) then ''initially_passing''
      else if count_list (letters outs) F < 3 then ''rarely_failing''
      else if count_list (letters outs) P < 3 then ''rarely_passing''
      else ''intermittent'')"

text \<open>The character the source writes for a letter.\<close>

definition letter_char :: "letter \<Rightarrow> char" where
  "letter_char l = (case l of P \<Rightarrow> CHR ''P'' | F \<Rightarrow> CHR ''F'')"

subsection \<open>First occurrences of a title\<close>

text \<open>The suggestions of a list whose title did not occur earlier in the list.\<close>

fun first_occurrences :: "string set \<Rightarrow> RepairSuggestion list \<Rightarrow> RepairSuggestion list" where
  "first_occurrences seen [] = []"
| "first_occurrences seen (s # ss) =
     (if title s \<in> seen then first_occurrences seen ss
      else s # first_occurrences (insert (title s) seen) ss)"

subsection \<open>Classification\<close>

text \<open>All pattern tables, and "some line matches some pattern".\<close>

definition all_patterns :: "string list" where
  "all_patterns = TIME_PATTERNS @ RANDOM_PATTERNS @ CONCURRENCY_PATTERNS @ ORDER_PATTERNS
     @ EXTERNAL_PATTERNS @ FLOAT_PATTERNS @ GLOBAL_STATE_PATTERNS"

definition any_match :: "(string \<Rightarrow> string \<Rightarrow> bool) \<Rightarrow> string list \<Rightarrow> bool" where
  "any_match re_search lines =
     list_ex (\<lambda>line. list_ex (\<lambda>pattern. re_search pattern line) all_patterns) lines"

text \<open>The two \<open>unknown\<close> causes \<open>analyze\<close> builds.\<close>

definition unparsed_cause :: RootCause where
  "unparsed_cause = \<lparr>type = UNKNOWN, description = ''Could not parse test file'',
     line_numbers = [], code_snippets = [], confidence = 0\<rparr>"

definition no_pattern_cause :: RootCause where
  "no_pattern_cause = \<lparr>type = UNKNOWN, description = ''No obvious flakiness pattern detected'',
     line_numbers = [], code_snippets = [], confidence = 1 / 10\<rparr>"

text \<open>
  A stand-in for \<open>re.search\<close> in examples: the pattern is read as literal text after
  its escapes are removed (a backslash followed by \<open>b\<close> is dropped, any other escaped
  character stands for itself) and searched as a substring. On a pattern made of literals
  and escapes it differs from the regular expression only where the word-boundary test
  decides.
\<close>

fun plain_text :: "string \<Rightarrow> string" where
  "plain_text [] = []"
| "plain_text [c] = (if c = CHR 0x5C then [] else [c])"
| "plain_text (c # d # ds) =
     (if c = CHR 0x5C then (if d = CHR ''b'' then plain_text ds else d # plain_text ds)
      else c # plain_text (d # ds))"

definition substring_search :: "string \<Rightarrow> string \<Rightarrow> bool" where
  "substring_search pattern line = str_contains (plain_text pattern) line"

text \<open>The seven checks in the order \<open>analyze\<close> runs them.\<close>

definition checks :: "(string \<Rightarrow> string \<Rightarrow> bool) \<Rightarrow> string list \<Rightarrow> int \<Rightarrow> RootCause list" where
  "checks re_search func_lines func_start_line =
     check_time_dependency re_search func_lines func_start_line
     @ check_random_dependency re_search func_lines func_start_line
     @ check_concurrency re_search func_lines func_start_line
     @ check_order_dependency re_search func_lines func_start_line
     @ check_external_dependency re_search func_lines func_start_line
     @ check_floating_point re_search func_lines func_start_line
     @ check_global_state re_search func_lines func_start_line"

text \<open>A file with two test functions, what the parser finds in it, and the analyzer
  built from it, for examples.\<close>

definition sample_source :: string where
  "sample_source =
     ''import time\<newline>'' @
     ''\<newline>'' @
     ''def test_sum():\<newline>'' @
     ''    assert add(1, 2) == 3\<newline>'' @
     ''\<newline>'' @
     ''def test_timeout():\<newline>'' @
     ''    start = time.time()\<newline>'' @
     ''    time.sleep(0.1)\<newline>'' @
     ''    assert time.time() - start < 1\<newline>''"

definition sample_nodes :: "FunctionDef list" where
  "sample_nodes =
     [\<lparr>fd_name = ''test_sum'', fd_lineno = 3,
       fd_segment = Some (''def test_sum():\<newline>'' @ ''    assert add(1, 2) == 3'')\<rparr>,
      \<lparr>fd_name = ''test_timeout'', fd_lineno = 6,
       fd_segment = Some (''def test_timeout():\<newline>'' @
                          ''    start = time.time()\<newline>'' @
                          ''    time.sleep(0.1)\<newline>'' @
                          ''    assert time.time() - start < 1'')\<rparr>]"

definition sample_analyzer :: RootCauseAnalyzer where
  "sample_analyzer = \<lparr>source_code = sample_source, tree = Some sample_nodes\<rparr>"

text \<open>
  A stand-in for \<open>ast.parse\<close> in examples: it knows the sample file and one text with a
  syntax error, raises \<open>ValueError\<close> on a text that holds a NUL character, and finds no
  function in any other text.
\<close>

definition sample_parse :: "string \<Rightarrow> parse_result" where
  "sample_parse content =
     (if CHR 0x00 \<in> set content then ParseRaises ValueError
      else if content = sample_source then Parsed sample_nodes
      else if content = ''def broken(:'' then SyntaxError
      else Parsed [])"

text \<open>A root cause of a given type, for examples.\<close>

definition cause_of :: "FlakinessType \<Rightarrow> RootCause" where
  "cause_of ty = \<lparr>type = ty, description = ''cause'', line_numbers = [1],
                  code_snippets = [''x''], confidence = 1 / 2\<rparr>"

section \<open>The aggregator: what every recorded aggregate satisfies\<close>

lemma split_acc_nonempty: "split_acc sep cur s \<noteq> []"
  by (induction sep cur s rule: split_acc.induct) auto

lemma tracked_new: "tracked (new_FlakyTest tid f g)"
  by (simp add: tracked_def new_FlakyTest_def)

lemma outcomes_new: "outcomes (new_FlakyTest tid f g) = []"
  by (simp add: new_FlakyTest_def)

lemma outcomes_update_test_data:
  "outcomes (update_test_data r t) = outcomes t @ [tr_outcome r]"
  by (simp add: update_test_data_def Let_def)

lemma tracked_update_test_data:
  "tracked t \<Longrightarrow> tracked (update_test_data r t)"
  by (simp add: tracked_def update_test_data_def Let_def)

lemma map_of_record_result:
  "map_of (record_result r al) k =
     (if k = tr_test_id r
      then Some (update_test_data r
             (case map_of al k of
                None \<Rightarrow> new_FlakyTest k (hd (str_split k ''::'')) (last (str_split k ''::''))
              | Some t \<Rightarrow> t))
      else map_of al k)"
  by (auto simp: record_result_def Let_def update_conv' str_split_def split_acc_nonempty
           split: option.splits)

lemma process_results_snoc:
  "process_results (rs @ [r]) al = record_result r (process_results rs al)"
  by (simp add: process_results_def)

lemma process_results_lookup:
  "(case map_of (process_results rs []) k of
      None \<Rightarrow> filter (\<lambda>r. tr_test_id r = k) rs = []
    | Some t \<Rightarrow> tracked t \<and> outcomes t \<noteq> [] \<and>
               outcomes t = map tr_outcome (filter (\<lambda>r. tr_test_id r = k) rs))"
proof (induction rs rule: rev_induct)
  case Nil
  show ?case by (simp add: process_results_def)
next
  case (snoc r rs)
  show ?case
  proof (cases "k = tr_test_id r")
    case True
    with snoc show ?thesis
      by (auto simp: process_results_snoc map_of_record_result tracked_update_test_data
            tracked_new outcomes_update_test_data outcomes_new split: option.splits)
  next
    case False
    with snoc show ?thesis
      by (auto simp: process_results_snoc map_of_record_result split: option.splits)
  qed
qed

lemma run_detection_concat: "run_detection runs = process_results (concat runs) []"
proof -
  have "fold process_results runs al = process_results (concat runs) al" for al
    by (induction runs arbitrary: al) (simp_all add: process_results_def)
  then show ?thesis by (simp add: run_detection_def)
qed

lemma aggregate_tracked:
  assumes "map_of (run_detection runs) k = Some t"
  shows "tracked t" and "outcomes t \<noteq> []" and "outcomes t = recorded_outcomes runs k"
  using assms process_results_lookup [where rs = "concat runs" and k = k]
  by (auto simp: run_detection_concat recorded_outcomes_def)

lemma aggregate_None:
  "map_of (run_detection runs) k = None \<longleftrightarrow> recorded_outcomes runs k = []"
  using process_results_lookup [where rs = "concat runs" and k = k]
  by (auto simp: run_detection_concat recorded_outcomes_def split: option.splits)

lemma counts_known:
  "int (count_list xs ''passed'') + int (count_list xs ''failed'')
     + int (count_list xs ''error'') + int (count_list xs ''skipped'')
   = int (length (filter (\<lambda>s. s \<in> set known_outcomes) xs))"
  by (induction xs) (auto simp: known_outcomes_def)

lemma tracked_counts_total:
  "tracked t \<Longrightarrow> counts_total t = int (length (filter (\<lambda>s. s \<in> set known_outcomes) (outcomes t)))"
  using counts_known [of "outcomes t"] by (simp add: tracked_def counts_total_def)

section \<open>The counters and the outcome sequence\<close>

text \<open>
  Claim C4, amended. For every aggregate of the dictionary after any sequence of runs, the
  four counters sum to the number of recorded outcomes that are one of \<open>passed\<close>,
  \<open>failed\<close>, \<open>error\<close>, \<open>skipped\<close>; so when every status fed to \<open>_process_results\<close>
  is one of these four, the counters sum to the length of the outcome sequence.
\<close>

theorem counts_sum_over_known_outcomes:
  assumes "map_of (run_detection runs) tid = Some t"
  shows "counts_total t = int (length (filter (\<lambda>s. s \<in> set known_outcomes) (outcomes t)))
       \<and> ((\<forall>run \<in> set runs. \<forall>r \<in> set run. tr_outcome r \<in> set known_outcomes)
            \<longrightarrow> counts_sum_to_length t)"
proof -
  note agg = aggregate_tracked [OF assms]
  have total: "counts_total t = int (length (filter (\<lambda>s. s \<in> set known_outcomes) (outcomes t)))"
    using agg(1) by (rule tracked_counts_total)
  have "counts_sum_to_length t"
    if known: "\<forall>run \<in> set runs. \<forall>r \<in> set run. tr_outcome r \<in> set known_outcomes"
  proof -
    have "set (outcomes t) \<subseteq> set known_outcomes"
      using known by (auto simp: agg(3) recorded_outcomes_def)
    then have "filter (\<lambda>s. s \<in> set known_outcomes) (outcomes t) = outcomes t"
      by (auto simp: filter_id_conv)
    with total show ?thesis by (simp add: counts_sum_to_length_def)
  qed
  with total show ?thesis by blast
qed

text \<open>
  The claim as stated ("with any status strings") fails: an outcome \<open>xfailed\<close> is
  appended to the sequence and counted by no counter.
\<close>

theorem counts_sum_unknown_outcome_counterexample:
  "map_option counts_sum_to_length
     (map_of (run_detection
        [[\<lparr>tr_test_id = ''tests/test_app.py::test_checkout'', tr_outcome = ''xfailed'',
           tr_duration = 0, tr_error_message = ''''\<rparr>]])
        ''tests/test_app.py::test_checkout'') = Some False"
  by (simp add: run_detection_def process_results_def record_result_def str_split_def
      new_FlakyTest_def update_test_data_def counts_sum_to_length_def counts_total_def Let_def)

text \<open>The theorem at a history of five runs with all four known outcomes.\<close>

theorem counts_sum_over_known_outcomes_witness:
  "map_option counts_sum_to_length
     (map_of (run_detection (history ''tests/test_app.py::test_checkout''
        [''passed'', ''failed'', ''error'', ''skipped'', ''passed'']))
        ''tests/test_app.py::test_checkout'') = Some True"
proof -
  let ?runs = "history ''tests/test_app.py::test_checkout''
        [''passed'', ''failed'', ''error'', ''skipped'', ''passed'']"
  obtain t where t: "map_of (run_detection ?runs) ''tests/test_app.py::test_checkout'' = Some t"
    using aggregate_None [of ?runs "''tests/test_app.py::test_checkout''"]
    by (auto simp: recorded_outcomes_def history_def outcome_of_def)
  have known: "\<forall>run \<in> set ?runs. \<forall>r \<in> set run. tr_outcome r \<in> set known_outcomes"
    by (simp add: history_def outcome_of_def known_outcomes_def)
  from counts_sum_over_known_outcomes [OF t] known show ?thesis by (simp add: t)
qed

section \<open>Histories of one test\<close>

lemma recorded_outcomes_history: "recorded_outcomes (history tid sts) tid = sts"
  by (induction sts) (simp_all add: recorded_outcomes_def history_def outcome_of_def)

lemma history_aggregate:
  assumes "sts \<noteq> []"
  obtains t where "map_of (run_detection (history tid sts)) tid = Some t"
    and "tracked t" and "outcomes t = sts"
proof -
  from assms have "map_of (run_detection (history tid sts)) tid \<noteq> None"
    by (simp add: aggregate_None recorded_outcomes_history)
  then obtain t where t: "map_of (run_detection (history tid sts)) tid = Some t" by auto
  from aggregate_tracked [OF t] have "tracked t" "outcomes t = sts"
    by (simp_all add: recorded_outcomes_history)
  with t that show thesis by blast
qed

lemma is_flaky_mixed: "is_flaky t = mixed (outcomes t)"
  by (simp add: is_flaky_def mixed_def Let_def)

lemma count_list_pos: "0 < count_list xs a \<longleftrightarrow> a \<in> set xs"
  using count_list_0_iff [of xs a] by auto

lemma count_list_replicate: "count_list (replicate n x) y = (if x = y then n else 0)"
  by (induction n) auto

lemma tracked_positive:
  assumes "tracked t"
  shows "pass_count t > 0 \<longleftrightarrow> ''passed'' \<in> set (outcomes t)"
    and "fail_count t > 0 \<longleftrightarrow> ''failed'' \<in> set (outcomes t)"
    and "error_count t > 0 \<longleftrightarrow> ''error'' \<in> set (outcomes t)"
  using assms by (simp_all add: tracked_def count_list_pos)

section \<open>The flaky predicate\<close>

text \<open>
  Claim C6. For every aggregate, \<open>is_flaky\<close> holds if and only if the recorded outcome
  sequence contains at least one \<open>passed\<close> and at least one \<open>failed\<close> or \<open>error\<close>;
  equivalently \<open>pass_count > 0\<close> and (\<open>fail_count > 0\<close> or \<open>error_count > 0\<close>). It is false
  for all-pass and for all-fail sequences.
\<close>

theorem is_flaky_iff_mixed_outcomes:
  assumes "map_of (run_detection runs) tid = Some t"
  shows "(is_flaky t \<longleftrightarrow>
            ''passed'' \<in> set (recorded_outcomes runs tid) \<and>
            (''failed'' \<in> set (recorded_outcomes runs tid) \<or>
             ''error'' \<in> set (recorded_outcomes runs tid)))
       \<and> (is_flaky t \<longleftrightarrow> pass_count t > 0 \<and> (fail_count t > 0 \<or> error_count t > 0))
       \<and> (set (recorded_outcomes runs tid) \<subseteq> {''passed''} \<longrightarrow> \<not> is_flaky t)
       \<and> (set (recorded_outcomes runs tid) \<subseteq> {''failed''} \<longrightarrow> \<not> is_flaky t)"
proof -
  note agg = aggregate_tracked [OF assms]
  have seq: "is_flaky t \<longleftrightarrow> mixed (recorded_outcomes runs tid)"
    by (simp add: is_flaky_mixed agg(3))
  have cnt: "is_flaky t \<longleftrightarrow> pass_count t > 0 \<and> (fail_count t > 0 \<or> error_count t > 0)"
    by (simp add: is_flaky_mixed mixed_def tracked_positive [OF agg(1)])
  have pass: "\<not> is_flaky t" if "set (recorded_outcomes runs tid) \<subseteq> {''passed''}"
    using that by (auto simp: seq mixed_def)
  have fail: "\<not> is_flaky t" if "set (recorded_outcomes runs tid) \<subseteq> {''failed''}"
    using that by (auto simp: seq mixed_def)
  from seq cnt pass fail show ?thesis by (simp add: mixed_def)
qed

text \<open>The theorem at a mixed history, an all-pass history and an all-fail history.\<close>

theorem is_flaky_iff_mixed_outcomes_witness:
  "map_option is_flaky (map_of (run_detection (history ''t.py::test_a'' [''passed'', ''skipped'', ''error''])) ''t.py::test_a'') = Some True
 \<and> map_option is_flaky (map_of (run_detection (history ''t.py::test_a'' [''passed'', ''passed''])) ''t.py::test_a'') = Some False
 \<and> map_option is_flaky (map_of (run_detection (history ''t.py::test_a'' [''failed'', ''failed''])) ''t.py::test_a'') = Some False"
proof -
  obtain t1 where t1: "map_of (run_detection (history ''t.py::test_a'' [''passed'', ''skipped'', ''error''])) ''t.py::test_a'' = Some t1"
    by (rule history_aggregate [of "[''passed'', ''skipped'', ''error'']" "''t.py::test_a''"]) simp
  obtain t2 where t2: "map_of (run_detection (history ''t.py::test_a'' [''passed'', ''passed''])) ''t.py::test_a'' = Some t2"
    by (rule history_aggregate [of "[''passed'', ''passed'']" "''t.py::test_a''"]) simp
  obtain t3 where t3: "map_of (run_detection (history ''t.py::test_a'' [''failed'', ''failed''])) ''t.py::test_a'' = Some t3"
    by (rule history_aggregate [of "[''failed'', ''failed'']" "''t.py::test_a''"]) simp
  from is_flaky_iff_mixed_outcomes [OF t1] is_flaky_iff_mixed_outcomes [OF t2] is_flaky_iff_mixed_outcomes [OF t3] show ?thesis
    by (simp add: t1 t2 t3 recorded_outcomes_history)
qed

section \<open>The flakiness score\<close>

lemma count_list_le_length: "count_list xs a \<le> length xs"
  by (induction xs) auto

lemma count_two_le_length:
  "a \<noteq> b \<Longrightarrow> count_list xs a + count_list xs b \<le> length xs"
  by (induction xs) auto

lemma tracked_score:
  assumes "tracked t" and "outcomes t \<noteq> []"
  shows "flakiness_score t =
           2 * min (of_int (pass_count t) / of_nat (length (outcomes t)))
                   (of_int (fail_count t) / of_nat (length (outcomes t)))"
  using assms by (simp add: flakiness_score_def Let_def)

lemma history_score:
  assumes "sts \<noteq> []"
  shows "map_option flakiness_score (map_of (run_detection (history tid sts)) tid) =
           Some (2 * min (of_nat (count_list sts ''passed'') / of_nat (length sts))
                         (of_nat (count_list sts ''failed'') / of_nat (length sts)))"
proof -
  from assms obtain t where t: "map_of (run_detection (history tid sts)) tid = Some t"
    and tr: "tracked t" and out: "outcomes t = sts"
    by (rule history_aggregate)
  from tracked_score [OF tr] assms out tr show ?thesis
    by (simp add: t tracked_def)
qed

text \<open>
  Claim C5. Every aggregate has at least one recorded outcome, and its score is
  \<open>2 * min (pass_count / total) (fail_count / total)\<close>, where \<open>total\<close> is the number of
  all recorded outcomes (skipped and error ones included) and the two counters are the
  numbers of \<open>passed\<close> and \<open>failed\<close> outcomes recorded. The sequence
  passed, failed, passed, failed scores 1, ten passed score 0, nine passed and one failed
  score 0.2.
\<close>

theorem flakiness_score_formula:
  assumes "map_of (run_detection runs) tid = Some t"
  shows "length (recorded_outcomes runs tid) > 0
       \<and> pass_count t = int (count_list (recorded_outcomes runs tid) ''passed'')
       \<and> fail_count t = int (count_list (recorded_outcomes runs tid) ''failed'')
       \<and> flakiness_score t =
            2 * min (of_int (pass_count t) / of_nat (length (recorded_outcomes runs tid)))
                    (of_int (fail_count t) / of_nat (length (recorded_outcomes runs tid)))
       \<and> map_option flakiness_score
            (map_of (run_detection (history tid [''passed'', ''failed'', ''passed'', ''failed''])) tid)
           = Some 1
       \<and> map_option flakiness_score
            (map_of (run_detection (history tid (replicate 10 ''passed''))) tid) = Some 0
       \<and> map_option flakiness_score
            (map_of (run_detection (history tid (replicate 9 ''passed'' @ [''failed'']))) tid)
           = Some (2 / 10)"
proof -
  note agg = aggregate_tracked [OF assms]
  have len: "length (recorded_outcomes runs tid) > 0"
    using agg(2,3) by simp
  have cnt: "pass_count t = int (count_list (recorded_outcomes runs tid) ''passed'')"
            "fail_count t = int (count_list (recorded_outcomes runs tid) ''failed'')"
    using agg(1) by (simp_all add: tracked_def agg(3))
  have score: "flakiness_score t =
            2 * min (of_int (pass_count t) / of_nat (length (recorded_outcomes runs tid)))
                    (of_int (fail_count t) / of_nat (length (recorded_outcomes runs tid)))"
    using tracked_score [OF agg(1,2)] by (simp add: agg(3))
  have ex1: "map_option flakiness_score
            (map_of (run_detection (history tid [''passed'', ''failed'', ''passed'', ''failed''])) tid)
           = Some 1"
    by (simp add: history_score)
  have ex2: "map_option flakiness_score
            (map_of (run_detection (history tid (replicate 10 ''passed''))) tid) = Some 0"
    by (simp add: history_score count_list_replicate)
  have ex3: "map_option flakiness_score
            (map_of (run_detection (history tid (replicate 9 ''passed'' @ [''failed'']))) tid)
           = Some (2 / 10)"
    by (simp add: history_score count_list_replicate)
  from len cnt score ex1 ex2 ex3 show ?thesis by blast
qed


text \<open>The theorem at a history with a skipped and an error outcome: both count toward
  the total, neither toward a ratio.\<close>

theorem flakiness_score_formula_witness:
  "map_option flakiness_score
     (map_of (run_detection (history ''t.py::test_a'' [''passed'', ''skipped'', ''failed'', ''error'']))
        ''t.py::test_a'') = Some (1 / 2)"
proof -
  obtain t where t: "map_of (run_detection (history ''t.py::test_a''
      [''passed'', ''skipped'', ''failed'', ''error''])) ''t.py::test_a'' = Some t"
    by (rule history_aggregate [of "[''passed'', ''skipped'', ''failed'', ''error'']" "''t.py::test_a''"]) simp
  from flakiness_score_formula [OF t] show ?thesis
    by (simp add: t recorded_outcomes_history)
qed

lemma min_half:
  fixes a b :: rat
  assumes "0 \<le> a" "0 \<le> b" "a + b \<le> 1"
  shows "2 * min a b = 1 \<longleftrightarrow> a = 1 / 2 \<and> b = 1 / 2"
  using assms by (cases "a \<le> b") (auto simp: min_def)

lemma min_le_one:
  fixes a b :: rat
  assumes "0 \<le> a" "0 \<le> b" "a + b \<le> 1"
  shows "2 * min a b \<le> 1"
  using assms by (cases "a \<le> b") (auto simp: min_def)

lemma min_zero:
  fixes a b :: rat
  assumes "0 \<le> a" "0 \<le> b" "a = 0 \<or> b = 0"
  shows "2 * min a b = 0"
  using assms by (auto simp: min_def)

lemma ratio_half:
  fixes p n :: nat
  assumes "n > 0"
  shows "rat_of_nat p / rat_of_nat n = 1 / 2 \<longleftrightarrow> 2 * p = n"
proof -
  have "rat_of_nat p / rat_of_nat n = 1 / 2 \<longleftrightarrow> 2 * rat_of_nat p = rat_of_nat n"
    using assms by (auto simp: field_simps)
  also have "\<dots> \<longleftrightarrow> rat_of_nat (2 * p) = rat_of_nat n" by simp
  also have "\<dots> \<longleftrightarrow> 2 * p = n" by (rule of_nat_eq_iff)
  finally show ?thesis .
qed

lemma score_bounds_aux:
  fixes p f :: nat and n :: nat
  assumes n: "n > 0" and le: "p + f \<le> n"
  defines "s \<equiv> 2 * min (rat_of_nat p / rat_of_nat n) (rat_of_nat f / rat_of_nat n)"
  shows "0 \<le> s" and "s \<le> 1" and "s = 1 \<longleftrightarrow> p = f \<and> p + f = n"
    and "p = 0 \<or> f = 0 \<Longrightarrow> s = 0"
proof -
  let ?a = "rat_of_nat p / rat_of_nat n" and ?b = "rat_of_nat f / rat_of_nat n"
  have a0: "0 \<le> ?a" and b0: "0 \<le> ?b" by simp_all
  have "rat_of_nat p + rat_of_nat f \<le> rat_of_nat n"
    using le by (metis of_nat_add of_nat_le_iff)
  then have ab: "?a + ?b \<le> 1"
    using n by (simp add: add_divide_distrib [symmetric] divide_le_eq)
  show "0 \<le> s" using a0 b0 by (simp add: s_def)
  show "s \<le> 1" unfolding s_def using a0 b0 ab by (rule min_le_one)
  have "s = 1 \<longleftrightarrow> ?a = 1 / 2 \<and> ?b = 1 / 2"
    unfolding s_def using a0 b0 ab by (rule min_half)
  also have "\<dots> \<longleftrightarrow> p = f \<and> p + f = n"
    unfolding ratio_half [OF n] by auto
  finally show "s = 1 \<longleftrightarrow> p = f \<and> p + f = n" .
  show "s = 0" if "p = 0 \<or> f = 0"
  proof -
    from that have "?a = 0 \<or> ?b = 0" by auto
    with a0 b0 show ?thesis unfolding s_def by (rule min_zero)
  qed
qed

text \<open>
  Claim C2, amended. For every aggregate the score lies in \<open>[0, 1]\<close>; it is 1 exactly
  when \<open>pass_count = fail_count\<close> and every recorded outcome is \<open>passed\<close> or \<open>failed\<close>
  (the two counters sum to the length of the sequence); it is 0 when \<open>pass_count\<close> or
  \<open>fail_count\<close> is zero.
\<close>

theorem flakiness_score_range:
  assumes "map_of (run_detection runs) tid = Some t"
  shows "0 \<le> flakiness_score t \<and> flakiness_score t \<le> 1
       \<and> (flakiness_score t = 1 \<longleftrightarrow>
            pass_count t = fail_count t \<and>
            pass_count t + fail_count t = int (length (outcomes t)))
       \<and> (pass_count t = 0 \<or> fail_count t = 0 \<longrightarrow> flakiness_score t = 0)"
proof -
  note agg = aggregate_tracked [OF assms]
  define p f n where "p = count_list (outcomes t) ''passed''"
    and "f = count_list (outcomes t) ''failed''" and "n = length (outcomes t)"
  have pc: "pass_count t = int p" and fc: "fail_count t = int f"
    using agg(1) by (simp_all add: tracked_def p_def f_def)
  have n: "n > 0" using agg(2) by (simp add: n_def)
  have le: "p + f \<le> n"
    unfolding p_def f_def n_def by (rule count_two_le_length) simp
  have score: "flakiness_score t = 2 * min (rat_of_nat p / rat_of_nat n) (rat_of_nat f / rat_of_nat n)"
    using tracked_score [OF agg(1,2)] by (simp add: pc fc n_def)
  from score_bounds_aux [OF n le] show ?thesis
    unfolding score pc fc n_def [symmetric] by (auto simp: of_nat_eq_iff [symmetric] simp del: of_nat_eq_iff)
qed

text \<open>
  The claim as stated fails from right to left: after passed, failed, skipped the two
  counters are equal and the score is 2/3, since the skipped run counts toward the total.
\<close>

theorem flakiness_score_even_split_counterexample:
  "map_option pass_count
     (map_of (run_detection (history ''t.py::test_a'' [''passed'', ''failed'', ''skipped''])) ''t.py::test_a'')
   = map_option fail_count
     (map_of (run_detection (history ''t.py::test_a'' [''passed'', ''failed'', ''skipped''])) ''t.py::test_a'')
 \<and> map_option flakiness_score
     (map_of (run_detection (history ''t.py::test_a'' [''passed'', ''failed'', ''skipped''])) ''t.py::test_a'')
   = Some (2 / 3)"
  by (simp add: run_detection_def history_def outcome_of_def process_results_def record_result_def
      str_split_def new_FlakyTest_def update_test_data_def flakiness_score_def Let_def)

text \<open>The theorem at an even split without other outcomes.\<close>

theorem flakiness_score_range_witness:
  "map_option flakiness_score
     (map_of (run_detection (history ''t.py::test_a'' [''passed'', ''failed'', ''failed'', ''passed'']))
        ''t.py::test_a'') = Some 1"
proof -
  obtain t where t: "map_of (run_detection (history ''t.py::test_a''
      [''passed'', ''failed'', ''failed'', ''passed''])) ''t.py::test_a'' = Some t"
    and tr: "tracked t" and out: "outcomes t = [''passed'', ''failed'', ''failed'', ''passed'']"
    by (rule history_aggregate [of "[''passed'', ''failed'', ''failed'', ''passed'']" "''t.py::test_a''"]) simp
  from tr out have "pass_count t = fail_count t"
    and "pass_count t + fail_count t = int (length (outcomes t))"
    by (simp_all add: tracked_def)
  with flakiness_score_range [OF t] show ?thesis by (simp add: t)
qed

section \<open>The failure pattern\<close>

lemma startswith_one: "startswith s [c] \<longleftrightarrow> take 1 s = [c]"
  by (cases s) auto

lemma str_contains_one: "str_contains [c] s \<longleftrightarrow> c \<in> set s"
  by (induction s) (auto simp: startswith_one)

lemma str_count_count_list: "str_count s c = int (count_list s c)"
  by (induction s) (auto simp: str_count_def)

lemma inj_letter_char: "inj letter_char"
  by (rule injI) (auto simp: letter_char_def split: letter.splits)

lemma outcomes_str_letters: "outcomes_str t = map letter_char (letters (outcomes t))"
  by (simp add: outcomes_str_def letters_def letter_char_def)

lemma pattern_string_facts:
  "startswith (outcomes_str t) ''F'' \<longleftrightarrow> take 1 (letters (outcomes t)) = [F]"
  "startswith (outcomes_str t) ''P'' \<longleftrightarrow> take 1 (letters (outcomes t)) = [P]"
  "str_contains ''P'' (outcomes_str t) \<longleftrightarrow> P \<in> set (letters (outcomes t))"
  "str_contains ''F'' (outcomes_str t) \<longleftrightarrow> F \<in> set (letters (outcomes t))"
  "str_count (outcomes_str t) CHR ''F'' = int (count_list (letters (outcomes t)) F)"
  "str_count (outcomes_str t) CHR ''P'' = int (count_list (letters (outcomes t)) P)"
proof -
  have c: "CHR ''P'' = letter_char P" "CHR ''F'' = letter_char F"
    by (simp_all add: letter_char_def)
  have tk: "take 1 (map letter_char ls) = [letter_char l] \<longleftrightarrow> take 1 ls = [l]" for ls l
    by (cases ls) (auto simp: inj_eq [OF inj_letter_char])
  have mem: "letter_char l \<in> set (map letter_char ls) \<longleftrightarrow> l \<in> set ls" for ls l
    by (auto simp: inj_eq [OF inj_letter_char])
  have cnt: "count_list (map letter_char ls) (letter_char l) = count_list ls l" for ls l
    by (induction ls) (auto simp: inj_eq [OF inj_letter_char])
  show "startswith (outcomes_str t) ''F'' \<longleftrightarrow> take 1 (letters (outcomes t)) = [F]"
    unfolding startswith_one outcomes_str_letters c by (rule tk)
  show "startswith (outcomes_str t) ''P'' \<longleftrightarrow> take 1 (letters (outcomes t)) = [P]"
    unfolding startswith_one outcomes_str_letters c by (rule tk)
  show "str_contains ''P'' (outcomes_str t) \<longleftrightarrow> P \<in> set (letters (outcomes t))"
    unfolding str_contains_one outcomes_str_letters c by (rule mem)
  show "str_contains ''F'' (outcomes_str t) \<longleftrightarrow> F \<in> set (letters (outcomes t))"
    unfolding str_contains_one outcomes_str_letters c by (rule mem)
  show "str_count (outcomes_str t) CHR ''F'' = int (count_list (letters (outcomes t)) F)"
    unfolding str_count_count_list outcomes_str_letters c by (simp add: cnt)
  show "str_count (outcomes_str t) CHR ''P'' = int (count_list (letters (outcomes t)) P)"
    unfolding str_count_count_list outcomes_str_letters c by (simp add: cnt)
qed

lemma failure_pattern_rules: "failure_pattern t = pattern_rules (outcomes t)"
  unfolding failure_pattern_def pattern_rules_def Let_def is_flaky_mixed pattern_string_facts
  by simp

lemma history_pattern:
  assumes "sts \<noteq> []"
  shows "map_option failure_pattern (map_of (run_detection (history tid sts)) tid)
           = Some (pattern_rules sts)"
proof -
  from assms obtain t where t: "map_of (run_detection (history tid sts)) tid = Some t"
    and out: "outcomes t = sts"
    by (rule history_aggregate)
  then show ?thesis by (simp add: failure_pattern_rules)
qed

text \<open>
  Claim C7. The failure pattern of an aggregate is what the rules give on its outcome
  sequence: one letter per outcome in run order (\<open>P\<close> for passed; \<open>F\<close> for error and
  everything else), then, first match wins: starts with \<open>F\<close> and contains \<open>P\<close>:
  initially failing; starts with \<open>P\<close> and contains \<open>F\<close>: initially passing; fewer than
  three \<open>F\<close>: rarely failing; fewer than three \<open>P\<close>: rarely passing; otherwise
  intermittent. A non-flaky aggregate is \<open>stable\<close> whatever the rules would say. The
  examples: failed, passed, passed is initially failing; passed, failed, passed is
  initially passing; three passed are stable.
\<close>

theorem failure_pattern_follows_rules:
  "failure_pattern t = pattern_rules (outcomes t)
 \<and> (\<not> is_flaky t \<longrightarrow> failure_pattern t = ''stable'')
 \<and> map_option failure_pattern
      (map_of (run_detection (history tid [''failed'', ''passed'', ''passed''])) tid)
     = Some ''initially_failing''
 \<and> map_option failure_pattern
      (map_of (run_detection (history tid [''passed'', ''failed'', ''passed''])) tid)
     = Some ''initially_passing''
 \<and> map_option failure_pattern
      (map_of (run_detection (history tid [''passed'', ''passed'', ''passed''])) tid)
     = Some ''stable''"
proof -
  have "\<not> is_flaky t \<longrightarrow> failure_pattern t = ''stable''"
    by (simp add: failure_pattern_def)
  moreover have "pattern_rules [''failed'', ''passed'', ''passed''] = ''initially_failing''"
    "pattern_rules [''passed'', ''failed'', ''passed''] = ''initially_passing''"
    "pattern_rules [''passed'', ''passed'', ''passed''] = ''stable''"
    by (simp_all add: pattern_rules_def mixed_def letters_def)
  ultimately show ?thesis
    by (simp add: failure_pattern_rules history_pattern)
qed

text \<open>The theorem at a non-flaky aggregate and at a flaky one that starts with an error.\<close>

theorem failure_pattern_follows_rules_witness:
  "failure_pattern
     \<lparr>test_id = ''t.py::test_a'', test_file = ''t.py'', test_function = ''test_a'',
      pass_count = 4, fail_count = 0, error_count = 0, skip_count = 0,
      outcomes = [''passed'', ''passed'', ''passed'', ''passed''], error_messages = []\<rparr>
   = ''stable''
 \<and> failure_pattern
     \<lparr>test_id = ''t.py::test_a'', test_file = ''t.py'', test_function = ''test_a'',
      pass_count = 2, fail_count = 1, error_count = 1, skip_count = 0,
      outcomes = [''error'', ''passed'', ''failed'', ''passed''],
      error_messages = [''boom'', ''assert 1 == 2'']\<rparr>
   = ''initially_failing''"
  using failure_pattern_follows_rules [of "\<lparr>test_id = ''t.py::test_a'', test_file = ''t.py'', test_function = ''test_a'',
      pass_count = 4, fail_count = 0, error_count = 0, skip_count = 0,
      outcomes = [''passed'', ''passed'', ''passed'', ''passed''], error_messages = []\<rparr>"]
    failure_pattern_follows_rules [of "\<lparr>test_id = ''t.py::test_a'', test_file = ''t.py'', test_function = ''test_a'',
      pass_count = 2, fail_count = 1, error_count = 1, skip_count = 0,
      outcomes = [''error'', ''passed'', ''failed'', ''passed''],
      error_messages = [''boom'', ''assert 1 == 2'']\<rparr>"]
  by (simp add: is_flaky_def pattern_rules_def mixed_def letters_def)

text \<open>For a flaky aggregate one of the first two rules always matches: the string is not
  empty and holds both letters.\<close>

lemma flaky_first_letter:
  assumes "is_flaky t"
  shows "failure_pattern t =
           (if take 1 (outcomes t) = [''passed''] then ''initially_passing'' else ''initially_failing'')"
proof -
  from assms have m: "mixed (outcomes t)" by (simp add: is_flaky_mixed)
  then have "P \<in> set (letters (outcomes t))" "F \<in> set (letters (outcomes t))"
    by (auto simp: mixed_def letters_def)
  moreover from m obtain x xs where "outcomes t = x # xs"
    by (cases "outcomes t") (auto simp: mixed_def)
  ultimately show ?thesis
    using m by (auto simp: failure_pattern_rules pattern_rules_def letters_def)
qed

text \<open>
  Claim C10. In the pattern string every outcome that is not \<open>passed\<close> is the letter
  \<open>F\<close>, \<open>skipped\<close> included; so a flaky aggregate whose outcome sequence begins with
  \<open>skipped\<close> has a string that starts with \<open>F\<close> and is classified initially failing.
\<close>

theorem skipped_first_is_initially_failing:
  assumes "is_flaky t" and "outcomes t = ''skipped'' # rest"
  shows "length (outcomes_str t) = length (outcomes t)
       \<and> (\<forall>i < length (outcomes t).
             outcomes_str t ! i = (if outcomes t ! i = ''passed'' then CHR ''P'' else CHR ''F''))
       \<and> hd (outcomes_str t) = CHR ''F''
       \<and> failure_pattern t = ''initially_failing''"
proof -
  have len: "length (outcomes_str t) = length (outcomes t)"
    by (simp add: outcomes_str_def)
  have nth: "\<forall>i < length (outcomes t).
      outcomes_str t ! i = (if outcomes t ! i = ''passed'' then CHR ''P'' else CHR ''F'')"
    by (simp add: outcomes_str_def)
  have first: "hd (outcomes_str t) = CHR ''F''"
    by (simp add: outcomes_str_def assms(2))
  have "failure_pattern t = ''initially_failing''"
    using flaky_first_letter [OF assms(1)] by (simp add: assms(2))
  with len nth first show ?thesis by blast
qed

text \<open>The theorem at skipped, passed, passed, failed: no failure precedes the first pass.\<close>

theorem skipped_first_is_initially_failing_witness:
  "map_option failure_pattern
     (map_of (run_detection (history ''t.py::test_a'' [''skipped'', ''passed'', ''passed'', ''failed'']))
        ''t.py::test_a'') = Some ''initially_failing''"
proof -
  obtain t where t: "map_of (run_detection (history ''t.py::test_a''
      [''skipped'', ''passed'', ''passed'', ''failed''])) ''t.py::test_a'' = Some t"
    and out: "outcomes t = ''skipped'' # [''passed'', ''passed'', ''failed'']"
    by (rule history_aggregate [of "[''skipped'', ''passed'', ''passed'', ''failed'']" "''t.py::test_a''"]) simp
  have "is_flaky t" by (simp add: is_flaky_def out)
  from skipped_first_is_initially_failing [OF this out] show ?thesis by (simp add: t)
qed

section \<open>CI aggregates and local aggregates over the same outcomes\<close>

lemma ci_tracked_new: "ci_tracked [] (new_CIFlakyTest name)"
  by (simp add: ci_tracked_def new_CIFlakyTest_def)

lemma ci_tracked_update:
  "ci_tracked sts t \<Longrightarrow> ci_tracked (sts @ [status]) (ci_update ex name status t)"
  by (simp add: ci_tracked_def ci_update_def Let_def)

lemma map_of_ci_record:
  "map_of (ci_record ex td al) k =
     (if k = td_test_name td
      then Some (ci_update ex k (td_status td)
             (case map_of al k of None \<Rightarrow> new_CIFlakyTest k | Some t \<Rightarrow> t))
      else map_of al k)"
  by (auto simp: ci_record_def Let_def update_conv' split: option.splits)

lemma ci_events_lookup:
  "(case map_of (fold (\<lambda>p. ci_record (fst p) (snd p)) es []) k of
      None \<Rightarrow> ci_statuses es k = []
    | Some t \<Rightarrow> ci_tracked (ci_statuses es k) t \<and> ci_statuses es k \<noteq> [])"
proof (induction es rule: rev_induct)
  case Nil
  show ?case by (simp add: ci_statuses_def)
next
  case (snoc e es)
  show ?case
  proof (cases "k = td_test_name (snd e)")
    case True
    with snoc show ?thesis
      by (auto simp: map_of_ci_record ci_statuses_def ci_tracked_new
               intro: ci_tracked_update [where sts = "[]", simplified] ci_tracked_update
               split: option.splits)
  next
    case False
    with snoc show ?thesis
      by (auto simp: map_of_ci_record ci_statuses_def split: option.splits)
  qed
qed

lemma ci_analyze_events:
  "ci_analyze executions =
     fold (\<lambda>p. ci_record (fst p) (snd p)) (ci_events (take 20 executions)) []"
proof -
  have one: "analyze_execution e al =
      fold (\<lambda>p. ci_record (fst p) (snd p))
        (case snd e of None \<Rightarrow> [] | Some tests \<Rightarrow> map (Pair (fst e)) tests) al" for e al
    by (simp add: analyze_execution_def fold_map comp_def split: option.splits)
  have "fold analyze_execution xs al =
      fold (\<lambda>p. ci_record (fst p) (snd p)) (ci_events xs) al" for xs al
    by (induction xs arbitrary: al) (simp_all add: ci_events_def one)
  then show ?thesis by (simp add: ci_analyze_def)
qed

lemma recorded_local_runs:
  "recorded_outcomes (local_runs xs) name = ci_statuses (ci_events xs) name"
proof -
  have "concat (local_runs xs) = map (local_result \<circ> snd) (ci_events xs)"
    by (induction xs)
       (simp_all add: local_runs_def ci_events_def comp_def split: option.splits)
  then show ?thesis
    by (simp add: recorded_outcomes_def ci_statuses_def filter_map comp_def
        local_result_def outcome_of_def)
qed

lemma ci_aggregate_tracked:
  assumes "map_of (ci_analyze executions) name = Some t"
  shows "ci_tracked (ci_statuses (ci_events (take 20 executions)) name) t"
  using assms ci_events_lookup [where es = "ci_events (take 20 executions)" and k = name]
  by (simp add: ci_analyze_events)

lemma ci_aggregate_None:
  "map_of (ci_analyze executions) name = None
     \<longleftrightarrow> ci_statuses (ci_events (take 20 executions)) name = []"
  using ci_events_lookup [where es = "ci_events (take 20 executions)" and k = name]
  by (auto simp: ci_analyze_events split: option.splits)

text \<open>
  Claim C1, amended. Over the outcomes the CI importer reads (its first 20 executions),
  recorded locally as well: a test has a CI aggregate exactly when it has a local one;
  the two \<open>is_flaky\<close> predicates agree on every sequence; \<open>total_runs\<close> is the length of
  the local outcome sequence, \<open>pass_count\<close> is the local \<open>pass_count\<close>, and the CI
  \<open>fail_count\<close> is the local \<open>fail_count + error_count\<close>; the two scores agree on every
  sequence without an \<open>error\<close> status.
\<close>

theorem ci_aggregate_matches_local:
  "(map_of (ci_analyze executions) name = None
      \<longleftrightarrow> map_of (run_detection (local_runs (take 20 executions))) name = None)
 \<and> (\<forall>c l. map_of (ci_analyze executions) name = Some c
          \<and> map_of (run_detection (local_runs (take 20 executions))) name = Some l
      \<longrightarrow> ci_is_flaky c = is_flaky l
        \<and> ci_total_runs c = int (length (outcomes l))
        \<and> ci_pass_count c = pass_count l
        \<and> ci_fail_count c = fail_count l + error_count l
        \<and> (''error'' \<notin> set (outcomes l) \<longrightarrow> ci_flakiness_score c = flakiness_score l))"
proof -
  let ?runs = "local_runs (take 20 executions)"
  let ?sts = "ci_statuses (ci_events (take 20 executions)) name"
  have none: "map_of (ci_analyze executions) name = None \<longleftrightarrow> map_of (run_detection ?runs) name = None"
    by (simp add: ci_aggregate_None aggregate_None recorded_local_runs)
  have some: "ci_is_flaky c = is_flaky l
        \<and> ci_total_runs c = int (length (outcomes l))
        \<and> ci_pass_count c = pass_count l
        \<and> ci_fail_count c = fail_count l + error_count l
        \<and> (''error'' \<notin> set (outcomes l) \<longrightarrow> ci_flakiness_score c = flakiness_score l)"
    if c: "map_of (ci_analyze executions) name = Some c"
      and l: "map_of (run_detection ?runs) name = Some l" for c l
  proof -
    note agg = aggregate_tracked [OF l]
    have out: "outcomes l = ?sts" by (simp add: agg(3) recorded_local_runs)
    have ct: "ci_tracked (outcomes l) c"
      using ci_aggregate_tracked [OF c] by (simp add: out)
    have total: "ci_total_runs c = int (length (outcomes l))"
      and pass: "ci_pass_count c = pass_count l"
      and fail: "ci_fail_count c = fail_count l + error_count l"
      using ct agg(1) by (simp_all add: ci_tracked_def tracked_def)
    have nonneg: "0 \<le> fail_count l" "0 \<le> error_count l"
      using agg(1) by (simp_all add: tracked_def)
    have "0 < fail_count l + error_count l \<longleftrightarrow> 0 < fail_count l \<or> 0 < error_count l"
      using nonneg by linarith
    then have flaky: "ci_is_flaky c = is_flaky l"
      using tracked_positive [OF agg(1)]
      by (simp add: ci_is_flaky_def pass fail is_flaky_mixed mixed_def)
    have score: "ci_flakiness_score c = flakiness_score l" if "''error'' \<notin> set (outcomes l)"
    proof -
      from that have "error_count l = 0"
        using agg(1) by (simp add: tracked_def count_list_0_iff)
      then show ?thesis
        by (simp add: ci_flakiness_score_def flakiness_score_def Let_def total pass fail)
    qed
    from flaky total pass fail score show ?thesis by blast
  qed
  from none some show ?thesis by blast
qed

text \<open>
  The claim as stated fails on a sequence with an \<open>error\<close> status: after passed, error
  the local score is 0 (no \<open>failed\<close> outcome) and the CI score is 1 (the error is counted
  in \<open>fail_count\<close>).
\<close>

theorem ci_score_error_counterexample:
  "map_option flakiness_score
     (map_of (run_detection (local_runs (ci_history ''test_checkout'' [''passed'', ''error''])))
        ''test_checkout'') = Some 0
 \<and> map_option ci_flakiness_score
     (map_of (ci_analyze (ci_history ''test_checkout'' [''passed'', ''error''])) ''test_checkout'')
   = Some 1"
  by (simp add: run_detection_def local_runs_def local_result_def outcome_of_def ci_history_def
      process_results_def record_result_def str_split_def new_FlakyTest_def update_test_data_def
      flakiness_score_def ci_analyze_def analyze_execution_def ci_record_def ci_update_def
      new_CIFlakyTest_def ci_flakiness_score_def Let_def)


text \<open>The theorem at passed, failed, skipped, passed: both aggregates exist, both are
  flaky, the scores are equal.\<close>

theorem ci_aggregate_matches_local_witness:
  "map_option ci_flakiness_score
     (map_of (ci_analyze (ci_history ''test_checkout'' [''passed'', ''failed'', ''skipped'', ''passed'']))
        ''test_checkout'')
   = map_option flakiness_score
     (map_of (run_detection (local_runs (take 20
        (ci_history ''test_checkout'' [''passed'', ''failed'', ''skipped'', ''passed'']))))
        ''test_checkout'')
 \<and> map_option ci_is_flaky
     (map_of (ci_analyze (ci_history ''test_checkout'' [''passed'', ''failed'', ''skipped'', ''passed'']))
        ''test_checkout'')
   = Some True"
proof -
  let ?h = "ci_history ''test_checkout'' [''passed'', ''failed'', ''skipped'', ''passed'']"
  have sts: "ci_statuses (ci_events (take 20 ?h)) ''test_checkout''
      = [''passed'', ''failed'', ''skipped'', ''passed'']"
    by (simp add: ci_statuses_def ci_events_def ci_history_def)
  obtain c where c: "map_of (ci_analyze ?h) ''test_checkout'' = Some c"
    using ci_aggregate_None [of ?h "''test_checkout''"] by (auto simp: sts)
  obtain l where l: "map_of (run_detection (local_runs (take 20 ?h))) ''test_checkout'' = Some l"
    using aggregate_None [of "local_runs (take 20 ?h)" "''test_checkout''"]
    by (auto simp: recorded_local_runs sts)
  have out: "outcomes l = [''passed'', ''failed'', ''skipped'', ''passed'']"
    using aggregate_tracked(3) [OF l] by (simp add: recorded_local_runs sts)
  have "is_flaky l" by (simp add: is_flaky_def out)
  with ci_aggregate_matches_local [of ?h "''test_checkout''"] c l out show ?thesis
    by simp
qed

section \<open>Flaky tests from CI history\<close>

lemma fold_keep:
  "fold (\<lambda>(k, v) acc. if Q v then acc @ [v] else acc) xs acc0 = acc0 @ filter Q (map snd xs)"
  by (induction xs arbitrary: acc0) (auto simp: split_def)

lemma get_flaky_tests_sort_filter:
  "get_flaky_tests test_results min_runs =
     sort_key (\<lambda>t. - ci_flakiness_score t)
       (filter (\<lambda>t. ci_total_runs t \<ge> min_runs \<and> ci_is_flaky t) (map snd test_results))"
  by (simp add: get_flaky_tests_def fold_keep)

lemma sorted_descending:
  "sorted_wrt (\<lambda>a b. f a \<ge> f b) (sort_key (\<lambda>t. - f t) xs)" for f :: "'a \<Rightarrow> rat"
proof -
  have "sorted (map (\<lambda>t. - f t) (sort_key (\<lambda>t. - f t) xs))" by (rule sorted_sort_key)
  then show ?thesis by (simp add: sorted_map)
qed

text \<open>
  Claim C8. For every mapping of CI aggregates and every \<open>min_runs\<close>, the result of
  \<open>get_flaky_tests\<close> holds exactly the aggregates with \<open>total_runs \<ge> min_runs\<close> that are
  flaky (as a multiset and as a set), sorted by descending score, aggregates of equal
  score in dictionary order. With \<open>min_runs = 3\<close> an aggregate with fewer than three runs
  is not in the result, flaky or not.
\<close>

theorem get_flaky_tests_filters_and_sorts:
  "mset (get_flaky_tests test_results min_runs) =
     mset (filter (\<lambda>t. ci_total_runs t \<ge> min_runs \<and> ci_is_flaky t) (map snd test_results))
 \<and> set (get_flaky_tests test_results min_runs) =
     {t \<in> snd ` set test_results. ci_total_runs t \<ge> min_runs \<and> ci_is_flaky t}
 \<and> sorted_wrt (\<lambda>a b. ci_flakiness_score a \<ge> ci_flakiness_score b)
       (get_flaky_tests test_results min_runs)
 \<and> filter (\<lambda>t. ci_flakiness_score t = score) (get_flaky_tests test_results min_runs) =
     filter (\<lambda>t. ci_flakiness_score t = score)
       (filter (\<lambda>t. ci_total_runs t \<ge> min_runs \<and> ci_is_flaky t) (map snd test_results))
 \<and> (\<forall>t \<in> snd ` set test_results.
       ci_total_runs t < 3 \<longrightarrow> t \<notin> set (get_flaky_tests test_results 3))"
proof -
  let ?keep = "\<lambda>m t. ci_total_runs t \<ge> m \<and> ci_is_flaky t"
  have ms: "mset (get_flaky_tests test_results min_runs) =
      mset (filter (?keep min_runs) (map snd test_results))"
    by (simp add: get_flaky_tests_sort_filter)
  have st: "set (get_flaky_tests test_results m) =
      {t \<in> snd ` set test_results. ci_total_runs t \<ge> m \<and> ci_is_flaky t}" for m
    by (auto simp: get_flaky_tests_sort_filter)
  have so: "sorted_wrt (\<lambda>a b. ci_flakiness_score a \<ge> ci_flakiness_score b)
       (get_flaky_tests test_results min_runs)"
    unfolding get_flaky_tests_sort_filter by (rule sorted_descending)
  have "filter (\<lambda>t. - ci_flakiness_score t = - score) (get_flaky_tests test_results min_runs) =
     filter (\<lambda>t. - ci_flakiness_score t = - score)
       (filter (?keep min_runs) (map snd test_results))"
    unfolding get_flaky_tests_sort_filter by (rule sort_key_stable)
  then have stable: "filter (\<lambda>t. ci_flakiness_score t = score) (get_flaky_tests test_results min_runs) =
     filter (\<lambda>t. ci_flakiness_score t = score)
       (filter (?keep min_runs) (map snd test_results))"
    by simp
  have three: "\<forall>t \<in> snd ` set test_results.
       ci_total_runs t < 3 \<longrightarrow> t \<notin> set (get_flaky_tests test_results 3)"
    by (auto simp: st)
  from ms st so stable three show ?thesis by blast
qed

text \<open>The theorem at five aggregates: \<open>test_a\<close> is flaky with two runs and is left out,
  \<open>test_d\<close> never failed; the others come out by descending score (1, 0.5, 0.4).\<close>

theorem get_flaky_tests_filters_and_sorts_witness:
  "map ci_test_name
     (get_flaky_tests
        [(''test_a'', ci_aggregate ''test_a'' 1 1 0),
         (''test_b'', ci_aggregate ''test_b'' 3 1 0),
         (''test_c'', ci_aggregate ''test_c'' 2 2 0),
         (''test_d'', ci_aggregate ''test_d'' 5 0 0),
         (''test_e'', ci_aggregate ''test_e'' 1 3 1)] 3)
   = [''test_c'', ''test_b'', ''test_e'']
 \<and> ci_aggregate ''test_a'' 1 1 0 \<notin> set
     (get_flaky_tests
        [(''test_a'', ci_aggregate ''test_a'' 1 1 0),
         (''test_b'', ci_aggregate ''test_b'' 3 1 0),
         (''test_c'', ci_aggregate ''test_c'' 2 2 0),
         (''test_d'', ci_aggregate ''test_d'' 5 0 0),
         (''test_e'', ci_aggregate ''test_e'' 1 3 1)] 3)
 \<and> ci_is_flaky (ci_aggregate ''test_a'' 1 1 0)"
proof -
  let ?r = "[(''test_a'', ci_aggregate ''test_a'' 1 1 0),
         (''test_b'', ci_aggregate ''test_b'' 3 1 0),
         (''test_c'', ci_aggregate ''test_c'' 2 2 0),
         (''test_d'', ci_aggregate ''test_d'' 5 0 0),
         (''test_e'', ci_aggregate ''test_e'' 1 3 1)]"
  have ev: "map ci_test_name (get_flaky_tests ?r 3) = [''test_c'', ''test_b'', ''test_e'']"
    by (simp add: get_flaky_tests_def ci_aggregate_def ci_is_flaky_def ci_flakiness_score_def Let_def)
  have a: "ci_aggregate ''test_a'' 1 1 0 \<in> snd ` set ?r" by simp
  have "ci_total_runs (ci_aggregate ''test_a'' 1 1 0) < 3" by (simp add: ci_aggregate_def)
  with get_flaky_tests_filters_and_sorts [of ?r 3] a have "ci_aggregate ''test_a'' 1 1 0 \<notin> set (get_flaky_tests ?r 3)"
    by blast
  with ev show ?thesis by (simp add: ci_is_flaky_def ci_aggregate_def)
qed


section \<open>Repair suggestions\<close>

lemma remove_duplicates_fold:
  "fold (\<lambda>suggestion (seen, unique_suggestions).
             if title suggestion \<notin> seen
             then (insert (title suggestion) seen, unique_suggestions @ [suggestion])
             else (seen, unique_suggestions))
        xs (seen, acc)
   = (seen \<union> title ` set xs, acc @ first_occurrences seen xs)"
  by (induction xs arbitrary: seen acc) auto

lemma snd_remove_duplicates: "snd (remove_duplicates xs) = first_occurrences {} xs"
  by (simp add: remove_duplicates_def remove_duplicates_fold)

lemma titles_first_occurrences:
  "title ` set (first_occurrences seen xs) = title ` set xs - seen"
  by (induction xs arbitrary: seen) auto

lemma distinct_first_occurrences: "distinct (map title (first_occurrences seen xs))"
proof (induction xs arbitrary: seen)
  case Nil
  show ?case by simp
next
  case (Cons s ss)
  have "title s \<notin> title ` set (first_occurrences (insert (title s) seen) ss)"
    by (simp add: titles_first_occurrences)
  with Cons show ?case by simp
qed

lemma find_first_occurrences:
  "find (\<lambda>s. title s = ttl) (first_occurrences seen xs) =
     (if ttl \<in> seen then None else find (\<lambda>s. title s = ttl) xs)"
  by (induction xs arbitrary: seen) auto

lemma find_filter_conv:
  "find Q xs = (case filter Q xs of [] \<Rightarrow> None | x # _ \<Rightarrow> Some x)"
  by (induction xs) auto

lemma filter_title_short:
  assumes "distinct (map title xs)"
  shows "length (filter (\<lambda>s. title s = ttl) xs) \<le> 1"
  using assms
proof (induction xs)
  case Nil
  show ?case by simp
next
  case (Cons s ss)
  show ?case
  proof (cases "title s = ttl")
    case True
    from Cons.prems have "title s \<notin> title ` set ss" by simp
    then have "title x \<noteq> title s" if "x \<in> set ss" for x
      using that by (metis imageI)
    with True have "filter (\<lambda>s. title s = ttl) ss = []"
      by (simp add: filter_empty_conv)
    with True show ?thesis by simp
  next
    case False
    with Cons show ?thesis by simp
  qed
qed

lemma short_lists_mset_eq:
  assumes "mset xs = mset ys" and "length xs \<le> 1"
  shows "xs = ys"
proof -
  from assms(1) have "length ys = length xs" by (metis size_mset)
  with assms show ?thesis
    by (cases xs; cases ys) auto
qed

lemma find_sort_key_distinct:
  assumes "distinct (map title xs)"
  shows "find (\<lambda>s. title s = ttl) (sort_key priority xs) = find (\<lambda>s. title s = ttl) xs"
proof -
  have "mset (filter (\<lambda>s. title s = ttl) xs) = mset (filter (\<lambda>s. title s = ttl) (sort_key priority xs))"
    by simp
  then have "filter (\<lambda>s. title s = ttl) xs = filter (\<lambda>s. title s = ttl) (sort_key priority xs)"
    using filter_title_short [OF assms] by (rule short_lists_mset_eq)
  then show ?thesis by (simp add: find_filter_conv)
qed

lemma suggest_repairs_sort:
  "suggest_repairs causes = sort_key priority (first_occurrences {} (collect_suggestions causes))"
  by (simp add: suggest_repairs_def snd_remove_duplicates)

lemma collect_suggestions_concat:
  "collect_suggestions causes = concat (map (\<lambda>cause. fixes_for (type cause)) causes)"
proof -
  have "fold (\<lambda>cause suggestions. suggestions @ fixes_for (type cause)) causes acc
      = acc @ concat (map (\<lambda>cause. fixes_for (type cause)) causes)" for acc
    by (induction causes arbitrary: acc) simp_all
  then show ?thesis by (simp add: collect_suggestions_def)
qed

text \<open>
  Claim C9. For every list of root causes, no two suggestions of the result share a
  title and the priorities are non-decreasing. The result is a reordering of the first
  occurrences of the titles among the collected suggestions: the suggestion of a given
  title in the result is the first one of that title that was collected, and suggestions
  of equal priority keep the order they were collected in (the sort is stable).
\<close>

theorem suggest_repairs_unique_and_sorted:
  "distinct (map title (suggest_repairs causes))
 \<and> sorted (map priority (suggest_repairs causes))
 \<and> mset (suggest_repairs causes) = mset (first_occurrences {} (collect_suggestions causes))
 \<and> find (\<lambda>s. title s = ttl) (suggest_repairs causes)
     = find (\<lambda>s. title s = ttl) (collect_suggestions causes)
 \<and> filter (\<lambda>s. priority s = p) (suggest_repairs causes)
     = filter (\<lambda>s. priority s = p) (first_occurrences {} (collect_suggestions causes))"
proof -
  let ?u = "first_occurrences {} (collect_suggestions causes)"
  have d: "distinct (map title ?u)" by (rule distinct_first_occurrences)
  have ms: "mset (suggest_repairs causes) = mset ?u"
    by (simp add: suggest_repairs_sort)
  then have eq: "mset (map title (suggest_repairs causes)) = mset (map title ?u)"
    by simp
  from mset_eq_imp_distinct_iff [OF eq] d
  have dist: "distinct (map title (suggest_repairs causes))" by blast
  have so: "sorted (map priority (suggest_repairs causes))"
    unfolding suggest_repairs_sort by (rule sorted_sort_key)
  have fi: "find (\<lambda>s. title s = ttl) (suggest_repairs causes)
     = find (\<lambda>s. title s = ttl) (collect_suggestions causes)"
    by (simp add: suggest_repairs_sort find_sort_key_distinct [OF d] find_first_occurrences)
  have stable: "filter (\<lambda>s. priority s = p) (suggest_repairs causes)
     = filter (\<lambda>s. priority s = p) ?u"
    unfolding suggest_repairs_sort by (rule sort_key_stable)
  from dist so ms fi stable show ?thesis by blast
qed

text \<open>The theorem at a list that names the random cause twice: its three suggestions
  appear once, and the priority-2 suggestion moves behind the time suggestions.\<close>

theorem suggest_repairs_unique_and_sorted_witness:
  "map title (suggest_repairs [cause_of RANDOM_DEPENDENT, cause_of TIME_DEPENDENT,
                               cause_of UNKNOWN, cause_of RANDOM_DEPENDENT])
   = [''Set random seed before test'', ''Use pytest fixtures for random data'',
      ''Mock datetime.now() with freezegun'', ''Inject time as parameter'',
      ''Mock random module'']
 \<and> map priority (suggest_repairs [cause_of RANDOM_DEPENDENT, cause_of TIME_DEPENDENT,
                                  cause_of UNKNOWN, cause_of RANDOM_DEPENDENT])
   = [1, 1, 1, 1, 2]
 \<and> distinct (map title (suggest_repairs [cause_of RANDOM_DEPENDENT, cause_of TIME_DEPENDENT,
                                  cause_of UNKNOWN, cause_of RANDOM_DEPENDENT]))"
proof -
  let ?cs = "[cause_of RANDOM_DEPENDENT, cause_of TIME_DEPENDENT,
              cause_of UNKNOWN, cause_of RANDOM_DEPENDENT]"
  have m: "map (\<lambda>s. (title s, priority s)) (suggest_repairs ?cs)
     = [(''Set random seed before test'', 1), (''Use pytest fixtures for random data'', 1),
        (''Mock datetime.now() with freezegun'', 1), (''Inject time as parameter'', 1),
        (''Mock random module'', 2)]"
    by (simp add: suggest_repairs_sort collect_suggestions_concat cause_of_def
        suggest_random_fixes_def suggest_time_fixes_def)
  have t: "map title (suggest_repairs ?cs) = map fst (map (\<lambda>s. (title s, priority s)) (suggest_repairs ?cs))"
    and q: "map priority (suggest_repairs ?cs) = map snd (map (\<lambda>s. (title s, priority s)) (suggest_repairs ?cs))"
    by (simp_all add: comp_def)
  from suggest_repairs_unique_and_sorted [of ?cs] show ?thesis
    unfolding t q m by simp
qed

section \<open>Root-cause classification\<close>

lemma check_pattern_Nil:
  "check_pattern re_search patterns lines start_line = []
     \<longleftrightarrow> \<not> list_ex (\<lambda>line. list_ex (\<lambda>pattern. re_search pattern line) patterns) lines"
proof -
  have "concat (map (\<lambda>(i, line). if M line then [(g i, h line)] else []) (enumerate n lines)) = []
      \<longleftrightarrow> \<not> list_ex M lines" for M :: "string \<Rightarrow> bool" and g :: "nat \<Rightarrow> int" and h :: "string \<Rightarrow> string" and n
    by (induction lines arbitrary: n) auto
  then show ?thesis by (simp add: check_pattern_def)
qed

lemma check_category_Nil:
  "check_category re_search patterns ty descr conf lines start_line = []
     \<longleftrightarrow> \<not> list_ex (\<lambda>line. list_ex (\<lambda>pattern. re_search pattern line) patterns) lines"
  by (simp add: check_category_def Let_def check_pattern_Nil)

lemma check_category_cause:
  assumes "c \<in> set (check_category re_search patterns ty descr conf lines start_line)"
  shows "type c = ty \<and> confidence c = conf \<and> line_numbers c \<noteq> []
       \<and> length (line_numbers c) = length (code_snippets c)"
  using assms by (auto simp: check_category_def Let_def split: if_splits)

lemmas check_defs = check_time_dependency_def check_random_dependency_def
  check_concurrency_def check_order_dependency_def check_external_dependency_def
  check_floating_point_def check_global_state_def

lemma checks_Nil: "checks re_search lines start = [] \<longleftrightarrow> \<not> any_match re_search lines"
  by (auto simp: checks_def check_defs check_category_Nil any_match_def all_patterns_def
      list_ex_iff)

lemma checks_cause:
  assumes "c \<in> set (checks re_search lines start)"
  shows "type c \<noteq> UNKNOWN \<and> line_numbers c \<noteq> []
       \<and> length (line_numbers c) = length (code_snippets c)"
  using assms unfolding checks_def check_defs
  by (auto dest!: check_category_cause)

lemma analyze_resolved:
  assumes "tree self = Some nodes" and "find_function nodes name = Some f"
    and "fd_segment f = Some src" and "src \<noteq> []"
  shows "analyze re_search self name =
           (if checks re_search (str_split src ''\<newline>'') (fd_lineno f) \<noteq> []
            then checks re_search (str_split src ''\<newline>'') (fd_lineno f)
            else [no_pattern_cause])"
  using assms by (simp add: analyze_def checks_def Let_def no_pattern_cause_def)

lemma analyze_cases:
  "(tree self = None \<longrightarrow> analyze re_search self name = [unparsed_cause])
 \<and> (\<forall>nodes. tree self = Some nodes \<and> find_function nodes name = None
       \<longrightarrow> analyze re_search self name = [])
 \<and> (\<forall>nodes f. tree self = Some nodes \<and> find_function nodes name = Some f
         \<and> (fd_segment f = None \<or> fd_segment f = Some [])
       \<longrightarrow> analyze re_search self name = [])
 \<and> (\<forall>nodes f src. tree self = Some nodes \<and> find_function nodes name = Some f
         \<and> fd_segment f = Some src \<and> src \<noteq> []
       \<longrightarrow> analyze re_search self name \<noteq> []
         \<and> (\<not> any_match re_search (str_split src ''\<newline>'')
              \<longrightarrow> analyze re_search self name = [no_pattern_cause])
         \<and> (any_match re_search (str_split src ''\<newline>'')
              \<longrightarrow> analyze re_search self name
                    = checks re_search (str_split src ''\<newline>'') (fd_lineno f)
                \<and> (\<forall>c \<in> set (analyze re_search self name).
                     type c \<noteq> UNKNOWN \<and> line_numbers c \<noteq> []
                     \<and> length (line_numbers c) = length (code_snippets c))))"
proof -
  have unparsed: "analyze re_search self name = [unparsed_cause]" if "tree self = None"
    using that by (simp add: analyze_def unparsed_cause_def)
  have missing: "analyze re_search self name = []"
    if "tree self = Some nodes" "find_function nodes name = None" for nodes
    using that by (simp add: analyze_def)
  have nosrc: "analyze re_search self name = []"
    if "tree self = Some nodes" "find_function nodes name = Some f"
      "fd_segment f = None \<or> fd_segment f = Some []" for nodes f
    using that by (auto simp: analyze_def)
  have resolved: "analyze re_search self name \<noteq> []
         \<and> (\<not> any_match re_search (str_split src ''\<newline>'')
              \<longrightarrow> analyze re_search self name = [no_pattern_cause])
         \<and> (any_match re_search (str_split src ''\<newline>'')
              \<longrightarrow> analyze re_search self name
                    = checks re_search (str_split src ''\<newline>'') (fd_lineno f)
                \<and> (\<forall>c \<in> set (analyze re_search self name).
                     type c \<noteq> UNKNOWN \<and> line_numbers c \<noteq> []
                     \<and> length (line_numbers c) = length (code_snippets c)))"
    if "tree self = Some nodes" "find_function nodes name = Some f"
      "fd_segment f = Some src" "src \<noteq> []" for nodes f src
    unfolding analyze_resolved [OF that]
    using checks_cause [of _ re_search "str_split src ''\<newline>''" "fd_lineno f"]
    by (auto simp: checks_Nil)
  from unparsed missing nosrc resolved show ?thesis by blast
qed

lemma classify_constructed:
  "new_RootCauseAnalyzer ast_parse file = Inr self
     \<Longrightarrow> classify re_search ast_parse file name = Inr (analyze re_search self name)"
  by (simp add: classify_def)

lemma classify_raised:
  "new_RootCauseAnalyzer ast_parse file = Inl e
     \<Longrightarrow> classify re_search ast_parse file name = Inl e"
  by (simp add: classify_def)

text \<open>
  Claim C3, amended. Whatever \<open>re.search\<close> and \<open>ast.parse\<close> answer, classification
  (constructing the analyzer for a file and calling \<open>analyze\<close>) does the following.
  If the file is missing or has a syntax error, it returns exactly one \<open>unknown\<close> cause
  with confidence 0 and no evidence. If reading the file raises, or the parser raises an
  error other than \<open>SyntaxError\<close>, that error leaves the classifier. If the file parses
  and no function of the name is found, or the function has no source segment, it
  returns the empty list. If the span resolves, it returns a non-empty list: exactly one
  \<open>unknown\<close> cause with confidence 0.1 and no evidence when no line matches any pattern,
  and otherwise the causes of the seven checks, all of a known category, each with
  evidence.
\<close>

theorem classify_results:
  "(file = Missing \<longrightarrow> classify re_search ast_parse file name = Inr [unparsed_cause])
 \<and> (\<forall>e. file = Unreadable e \<longrightarrow> classify re_search ast_parse file name = Inl e)
 \<and> (\<forall>content. file = Contents content \<and> ast_parse content = SyntaxError
       \<longrightarrow> classify re_search ast_parse file name = Inr [unparsed_cause])
 \<and> (\<forall>content e. file = Contents content \<and> ast_parse content = ParseRaises e
       \<longrightarrow> classify re_search ast_parse file name = Inl e)
 \<and> (\<forall>content nodes. file = Contents content \<and> ast_parse content = Parsed nodes
         \<and> find_function nodes name = None
       \<longrightarrow> classify re_search ast_parse file name = Inr [])
 \<and> (\<forall>content nodes f. file = Contents content \<and> ast_parse content = Parsed nodes
         \<and> find_function nodes name = Some f
         \<and> (fd_segment f = None \<or> fd_segment f = Some [])
       \<longrightarrow> classify re_search ast_parse file name = Inr [])
 \<and> (\<forall>content nodes f src. file = Contents content \<and> ast_parse content = Parsed nodes
         \<and> find_function nodes name = Some f \<and> fd_segment f = Some src \<and> src \<noteq> []
       \<longrightarrow> (\<not> any_match re_search (str_split src ''\<newline>'')
              \<longrightarrow> classify re_search ast_parse file name = Inr [no_pattern_cause])
         \<and> (any_match re_search (str_split src ''\<newline>'')
              \<longrightarrow> classify re_search ast_parse file name
                    = Inr (checks re_search (str_split src ''\<newline>'') (fd_lineno f))
                \<and> checks re_search (str_split src ''\<newline>'') (fd_lineno f) \<noteq> []
                \<and> (\<forall>c \<in> set (checks re_search (str_split src ''\<newline>'') (fd_lineno f)).
                     type c \<noteq> UNKNOWN \<and> line_numbers c \<noteq> []
                     \<and> length (line_numbers c) = length (code_snippets c))))"
proof -
  have missing: "classify re_search ast_parse file name = Inr [unparsed_cause]"
    if "file = Missing"
    using that analyze_cases [of "\<lparr>source_code = [], tree = None\<rparr>" re_search name]
    by (simp add: classify_def new_RootCauseAnalyzer_def)
  have unreadable: "classify re_search ast_parse file name = Inl e"
    if "file = Unreadable e" for e
    using that by (simp add: classify_def new_RootCauseAnalyzer_def)
  have synerr: "classify re_search ast_parse file name = Inr [unparsed_cause]"
    if "file = Contents content" "ast_parse content = SyntaxError" for content
    using that analyze_cases [of "\<lparr>source_code = content, tree = None\<rparr>" re_search name]
    by (simp add: classify_def new_RootCauseAnalyzer_def)
  have raises: "classify re_search ast_parse file name = Inl e"
    if "file = Contents content" "ast_parse content = ParseRaises e" for content e
    using that by (simp add: classify_def new_RootCauseAnalyzer_def)
  have parsed: "classify re_search ast_parse file name
      = Inr (analyze re_search \<lparr>source_code = content, tree = Some nodes\<rparr> name)"
    if "file = Contents content" "ast_parse content = Parsed nodes" for content nodes
    using that by (simp add: classify_def new_RootCauseAnalyzer_def)
  have nofun: "classify re_search ast_parse file name = Inr []"
    if "file = Contents content" "ast_parse content = Parsed nodes"
      "find_function nodes name = None" for content nodes
    using that(3) analyze_cases [of "\<lparr>source_code = content, tree = Some nodes\<rparr>" re_search name]
    by (simp add: parsed [OF that(1,2)])
  have nosrc: "classify re_search ast_parse file name = Inr []"
    if "file = Contents content" "ast_parse content = Parsed nodes"
      "find_function nodes name = Some f" "fd_segment f = None \<or> fd_segment f = Some []"
    for content nodes f
    using that(3,4) analyze_cases [of "\<lparr>source_code = content, tree = Some nodes\<rparr>" re_search name]
    by (auto simp: parsed [OF that(1,2)])
  have resolved: "(\<not> any_match re_search (str_split src ''\<newline>'')
              \<longrightarrow> classify re_search ast_parse file name = Inr [no_pattern_cause])
         \<and> (any_match re_search (str_split src ''\<newline>'')
              \<longrightarrow> classify re_search ast_parse file name
                    = Inr (checks re_search (str_split src ''\<newline>'') (fd_lineno f))
                \<and> checks re_search (str_split src ''\<newline>'') (fd_lineno f) \<noteq> []
                \<and> (\<forall>c \<in> set (checks re_search (str_split src ''\<newline>'') (fd_lineno f)).
                     type c \<noteq> UNKNOWN \<and> line_numbers c \<noteq> []
                     \<and> length (line_numbers c) = length (code_snippets c)))"
    if "file = Contents content" "ast_parse content = Parsed nodes"
      "find_function nodes name = Some f" "fd_segment f = Some src" "src \<noteq> []"
    for content nodes f src
  proof -
    have tr: "tree \<lparr>source_code = content, tree = Some nodes\<rparr> = Some nodes" by simp
    show ?thesis
      unfolding parsed [OF that(1,2)] analyze_resolved [OF tr that(3,4,5)]
      using checks_cause [of _ re_search "str_split src ''\<newline>''" "fd_lineno f"]
      by (auto simp: checks_Nil)
  qed
  have c1: "file = Missing \<longrightarrow> classify re_search ast_parse file name = Inr [unparsed_cause]"
    using missing by simp
  have c2: "\<forall>e. file = Unreadable e \<longrightarrow> classify re_search ast_parse file name = Inl e"
    using unreadable by simp
  have c3: "\<forall>content. file = Contents content \<and> ast_parse content = SyntaxError
       \<longrightarrow> classify re_search ast_parse file name = Inr [unparsed_cause]"
    using synerr by simp
  have c4: "\<forall>content e. file = Contents content \<and> ast_parse content = ParseRaises e
       \<longrightarrow> classify re_search ast_parse file name = Inl e"
    using raises by simp
  have c5: "\<forall>content nodes. file = Contents content \<and> ast_parse content = Parsed nodes
         \<and> find_function nodes name = None
       \<longrightarrow> classify re_search ast_parse file name = Inr []"
    using nofun by simp
  have c6: "\<forall>content nodes f. file = Contents content \<and> ast_parse content = Parsed nodes
         \<and> find_function nodes name = Some f
         \<and> (fd_segment f = None \<or> fd_segment f = Some [])
       \<longrightarrow> classify re_search ast_parse file name = Inr []"
  proof (intro allI impI)
    fix content nodes f
    assume h: "file = Contents content \<and> ast_parse content = Parsed nodes
         \<and> find_function nodes name = Some f
         \<and> (fd_segment f = None \<or> fd_segment f = Some [])"
    then have "file = Contents content" "ast_parse content = Parsed nodes"
      "find_function nodes name = Some f" "fd_segment f = None \<or> fd_segment f = Some []"
      by simp_all
    then show "classify re_search ast_parse file name = Inr []" by (rule nosrc)
  qed
  have c7: "\<forall>content nodes f src. file = Contents content \<and> ast_parse content = Parsed nodes
         \<and> find_function nodes name = Some f \<and> fd_segment f = Some src \<and> src \<noteq> []
       \<longrightarrow> (\<not> any_match re_search (str_split src ''\<newline>'')
              \<longrightarrow> classify re_search ast_parse file name = Inr [no_pattern_cause])
         \<and> (any_match re_search (str_split src ''\<newline>'')
              \<longrightarrow> classify re_search ast_parse file name
                    = Inr (checks re_search (str_split src ''\<newline>'') (fd_lineno f))
                \<and> checks re_search (str_split src ''\<newline>'') (fd_lineno f) \<noteq> []
                \<and> (\<forall>c \<in> set (checks re_search (str_split src ''\<newline>'') (fd_lineno f)).
                     type c \<noteq> UNKNOWN \<and> line_numbers c \<noteq> []
                     \<and> length (line_numbers c) = length (code_snippets c)))"
  proof (intro allI impI)
    fix content nodes f src
    assume h: "file = Contents content \<and> ast_parse content = Parsed nodes
         \<and> find_function nodes name = Some f \<and> fd_segment f = Some src \<and> src \<noteq> []"
    then have "file = Contents content" "ast_parse content = Parsed nodes"
      "find_function nodes name = Some f" "fd_segment f = Some src" "src \<noteq> []"
      by simp_all
    then show "(\<not> any_match re_search (str_split src ''\<newline>'')
              \<longrightarrow> classify re_search ast_parse file name = Inr [no_pattern_cause])
         \<and> (any_match re_search (str_split src ''\<newline>'')
              \<longrightarrow> classify re_search ast_parse file name
                    = Inr (checks re_search (str_split src ''\<newline>'') (fd_lineno f))
                \<and> checks re_search (str_split src ''\<newline>'') (fd_lineno f) \<noteq> []
                \<and> (\<forall>c \<in> set (checks re_search (str_split src ''\<newline>'') (fd_lineno f)).
                     type c \<noteq> UNKNOWN \<and> line_numbers c \<noteq> []
                     \<and> length (line_numbers c) = length (code_snippets c)))"
      by (rule resolved)
  qed
  show ?thesis by (intro conjI c1 c2 c3 c4 c5 c6 c7)
qed

text \<open>
  The claim as stated fails twice. Where the named function cannot be resolved: the
  file parses, holds no function \<open>test_checkout\<close>, and the result is the empty list, not
  an \<open>unknown\<close> cause of confidence 0.1. And it does raise: for a file whose bytes do not
  decode, \<open>read_text()\<close> raises in the constructor and nothing catches it.
\<close>

theorem classify_empty_and_raising_counterexample:
  "classify substring_search sample_parse (Contents sample_source) ''test_checkout'' = Inr []
 \<and> classify substring_search sample_parse (Unreadable UnicodeDecodeError) ''test_sum''
     = Inl UnicodeDecodeError"
  by code_simp

text \<open>The theorem at a missing file, a file with a syntax error, an unreadable file, a
  content the parser refuses, and, in the sample file, at a missing function, a function
  without a matching line and a function that reads the clock.\<close>

theorem classify_results_witness:
  "classify substring_search sample_parse Missing ''test_sum'' = Inr [unparsed_cause]
 \<and> classify substring_search sample_parse (Contents ''def broken(:'') ''test_sum''
     = Inr [unparsed_cause]
 \<and> classify substring_search sample_parse (Unreadable OSError) ''test_sum'' = Inl OSError
 \<and> classify substring_search sample_parse (Contents [CHR ''x'', CHR 0x00]) ''test_sum''
     = Inl ValueError
 \<and> classify substring_search sample_parse (Contents sample_source) ''test_checkout'' = Inr []
 \<and> classify substring_search sample_parse (Contents sample_source) ''test_sum''
     = Inr [no_pattern_cause]
 \<and> classify substring_search sample_parse (Contents sample_source) ''test_timeout''
     = Inr [\<lparr>type = TIME_DEPENDENT,
             description = ''Test uses current time/date which changes between runs'',
             line_numbers = [7, 8, 9],
             code_snippets = [''start = time.time()'', ''time.sleep(0.1)'',
                              ''assert time.time() - start < 1''],
             confidence = 9 / 10\<rparr>]"
proof -
  let ?sum = "\<lparr>fd_name = ''test_sum'', fd_lineno = 3,
       fd_segment = Some (''def test_sum():\<newline>'' @ ''    assert add(1, 2) == 3'')\<rparr>"
  let ?timeout = "\<lparr>fd_name = ''test_timeout'', fd_lineno = 6,
       fd_segment = Some (''def test_timeout():\<newline>'' @
                          ''    start = time.time()\<newline>'' @
                          ''    time.sleep(0.1)\<newline>'' @
                          ''    assert time.time() - start < 1'')\<rparr>"
  let ?sum_src = "''def test_sum():\<newline>'' @ ''    assert add(1, 2) == 3''"
  let ?timeout_src = "''def test_timeout():\<newline>'' @ ''    start = time.time()\<newline>'' @
                  ''    time.sleep(0.1)\<newline>'' @ ''    assert time.time() - start < 1''"
  have p0: "sample_parse ''def broken(:'' = SyntaxError"
    and p1: "sample_parse [CHR ''x'', CHR 0x00] = ParseRaises ValueError"
    and p2: "sample_parse sample_source = Parsed sample_nodes"
    by code_simp+
  have f0: "find_function sample_nodes ''test_checkout'' = None"
    and f1: "find_function sample_nodes ''test_sum'' = Some ?sum"
    and f2: "find_function sample_nodes ''test_timeout'' = Some ?timeout"
    by (simp_all add: find_function_def sample_nodes_def)
  have s1: "fd_segment ?sum = Some ?sum_src" "?sum_src \<noteq> []"
    and s2: "fd_segment ?timeout = Some ?timeout_src" "?timeout_src \<noteq> []"
    by simp_all
  have quiet: "\<not> any_match substring_search (str_split ?sum_src ''\<newline>'')"
    by code_simp
  have loud: "any_match substring_search (str_split ?timeout_src ''\<newline>'')"
    by code_simp
  have ev: "checks substring_search (str_split ?timeout_src ''\<newline>'') (fd_lineno ?timeout)
      = [\<lparr>type = TIME_DEPENDENT,
             description = ''Test uses current time/date which changes between runs'',
             line_numbers = [7, 8, 9],
             code_snippets = [''start = time.time()'', ''time.sleep(0.1)'',
                              ''assert time.time() - start < 1''],
             confidence = 9 / 10\<rparr>]"
    by code_simp
  have 1: "classify substring_search sample_parse Missing ''test_sum'' = Inr [unparsed_cause]"
    using classify_results [of Missing substring_search sample_parse "''test_sum''"] by simp
  have 2: "classify substring_search sample_parse (Contents ''def broken(:'') ''test_sum''
     = Inr [unparsed_cause]"
    using classify_results [of "Contents ''def broken(:''" substring_search sample_parse "''test_sum''"]
    by (simp add: p0)
  have 3: "classify substring_search sample_parse (Unreadable OSError) ''test_sum'' = Inl OSError"
    using classify_results [of "Unreadable OSError" substring_search sample_parse "''test_sum''"]
    by simp
  have 4: "classify substring_search sample_parse (Contents [CHR ''x'', CHR 0x00]) ''test_sum''
     = Inl ValueError"
    using classify_results [of "Contents [CHR ''x'', CHR 0x00]" substring_search sample_parse "''test_sum''"]
    by (simp add: p1)
  have 5: "classify substring_search sample_parse (Contents sample_source) ''test_checkout'' = Inr []"
    using classify_results [of "Contents sample_source" substring_search sample_parse "''test_checkout''"]
    by (simp add: p2 f0)
  have 6: "classify substring_search sample_parse (Contents sample_source) ''test_sum''
     = Inr [no_pattern_cause]"
    using classify_results [of "Contents sample_source" substring_search sample_parse "''test_sum''"] quiet
    by (simp add: p2 f1 del: append.simps)
  have "classify substring_search sample_parse (Contents sample_source) ''test_timeout''
     = Inr (checks substring_search (str_split ?timeout_src ''\<newline>'') (fd_lineno ?timeout))"
    using classify_results [of "Contents sample_source" substring_search sample_parse "''test_timeout''"] loud
    by (simp add: p2 f2 del: append.simps)
  then have 7: "classify substring_search sample_parse (Contents sample_source) ''test_timeout''
     = Inr [\<lparr>type = TIME_DEPENDENT,
             description = ''Test uses current time/date which changes between runs'',
             line_numbers = [7, 8, 9],
             code_snippets = [''start = time.time()'', ''time.sleep(0.1)'',
                              ''assert time.time() - start < 1''],
             confidence = 9 / 10\<rparr>]"
    unfolding ev .
  show ?thesis by (intro conjI 1 2 3 4 5 6 7)
qed

end
